theory Spec2Isabelle
  imports Complex_Main
begin

section \<open>Strings of the source language\<close>

text \<open>
  A string of the source is a sequence of UTF-16 code units; \<open>length\<close>, \<open>substring\<close>
  and the regular expressions (none carries the \<open>u\<close> flag) all count code units. A code unit
  is modelled by its number, a string by the list of its code units.
\<close>

type_synonym jstring = "nat list"

definition str :: "string \<Rightarrow> jstring" where
  "str s = map of_char s"

definition isLineTerminator :: "nat \<Rightarrow> bool" where
  \<comment> \<open>LF, CR, LINE SEPARATOR, PARAGRAPH SEPARATOR\<close>
  "isLineTerminator c = (c = 10 \<or> c = 13 \<or> c = 8232 \<or> c = 8233)"

definition isWhiteSpace :: "nat \<Rightarrow> bool" where
  \<comment> \<open>what \<open>\s\<close> matches and \<open>trim\<close> removes: TAB, VT, FF, SP, NBSP, BOM, the space
      separators U+1680, U+2000..U+200A, U+202F, U+205F, U+3000, and the line terminators\<close>
  "isWhiteSpace c = (c = 9 \<or> c = 11 \<or> c = 12 \<or> c = 32 \<or> c = 160 \<or> c = 65279 \<or> c = 5760
      \<or> (8192 \<le> c \<and> c \<le> 8202) \<or> c = 8239 \<or> c = 8287 \<or> c = 12288 \<or> isLineTerminator c)"

definition trim :: "jstring \<Rightarrow> jstring" where
  "trim s = rev (dropWhile isWhiteSpace (rev (dropWhile isWhiteSpace s)))"

definition substring :: "nat \<Rightarrow> nat \<Rightarrow> jstring \<Rightarrow> jstring" where
  \<comment> \<open>\<open>s.substring(a, b)\<close> for \<open>0 \<le> a \<le> b\<close>; indices beyond the end are clamped\<close>
  "substring a b s = take (b - a) (drop a s)"

primrec startsWith :: "jstring \<Rightarrow> jstring \<Rightarrow> bool" where
  "startsWith s [] = True"
| "startsWith s (x # xs) = (case s of [] \<Rightarrow> False | y # ys \<Rightarrow> x = y \<and> startsWith ys xs)"

primrec includesStr :: "jstring \<Rightarrow> jstring \<Rightarrow> bool" where
  "includesStr [] sub = (sub = [])"
| "includesStr (c # cs) sub = (startsWith (c # cs) sub \<or> includesStr cs sub)"

definition firstLine :: "jstring \<Rightarrow> jstring" where
  \<comment> \<open>\<open>s.split('\n')[0]\<close>\<close>
  "firstLine s = takeWhile (\<lambda>c. c \<noteq> 10) s"

fun showNat :: "nat \<Rightarrow> jstring" where
  "showNat n = (if n < 10 then [48 + n] else showNat (n div 10) @ [48 + n mod 10])"

declare showNat.simps [simp del]

definition showInt :: "int \<Rightarrow> jstring" where
  "showInt i = (if i < 0 then 45 # showNat (nat (- i)) else showNat (nat i))"

section \<open>Regular expressions\<close>

text \<open>
  The regular expressions of the source are sequences of assertions and of greedily
  quantified character classes; none has an alternative, a lazy quantifier or a
  back-reference, and no capture is read. \<open>Rep c lo hi\<close> is \<open>c{lo,hi}\<close> (\<open>hi = None\<close>:
  unbounded), so \<open>c\<close> alone is \<open>Rep c 1 (Some 1)\<close>, \<open>c+\<close> is \<open>Rep c 1 None\<close> and
  \<open>c*\<close> is \<open>Rep c 0 None\<close>.
\<close>

datatype cclass =
    Lit nat            \<comment> \<open>one given code unit\<close>
  | OneOf "nat list"   \<comment> \<open>\<open>[...]\<close>\<close>
  | NoneOf "nat list"  \<comment> \<open>\<open>[^...]\<close>\<close>
  | Digit              \<comment> \<open>\<open>\d\<close>\<close>
  | Space              \<comment> \<open>\<open>\s\<close>\<close>
  | Dot                \<comment> \<open>\<open>.\<close>: anything but a line terminator\<close>

datatype ritem =
    StartInput         \<comment> \<open>\<open>^\<close> without the \<open>m\<close> flag\<close>
  | StartLine          \<comment> \<open>\<open>^\<close> with the \<open>m\<close> flag\<close>
  | EndInput           \<comment> \<open>\<open>$\<close> without the \<open>m\<close> flag\<close>
  | EndLine            \<comment> \<open>\<open>$\<close> with the \<open>m\<close> flag\<close>
  | Rep cclass nat "nat option"

type_synonym regex = "ritem list"

definition Chr :: "nat \<Rightarrow> ritem" where
  "Chr c = Rep (Lit c) 1 (Some 1)"

definition Plus :: "cclass \<Rightarrow> ritem" where
  "Plus c = Rep c 1 None"

fun inClass :: "cclass \<Rightarrow> nat \<Rightarrow> bool" where
  "inClass (Lit x) c = (c = x)"
| "inClass (OneOf xs) c = (c \<in> set xs)"
| "inClass (NoneOf xs) c = (c \<notin> set xs)"
| "inClass Digit c = (48 \<le> c \<and> c \<le> 57)"
| "inClass Space c = isWhiteSpace c"
| "inClass Dot c = (\<not> isLineTerminator c)"

text \<open>The number of leading code units a greedy quantifier takes at most.\<close>

fun countRun :: "cclass \<Rightarrow> nat option \<Rightarrow> jstring \<Rightarrow> nat" where
  "countRun c hi [] = 0"
| "countRun c hi (x # xs) =
     (if hi = Some 0 \<or> \<not> inClass c x then 0
      else Suc (countRun c (map_option (\<lambda>h. h - 1) hi) xs))"

text \<open>Backtracking: the longest run first, then one code unit less, down to \<open>lo\<close>.\<close>

primrec firstDown :: "(nat \<Rightarrow> nat option) \<Rightarrow> nat \<Rightarrow> nat \<Rightarrow> nat option" where
  "firstDown f lo 0 = (if 0 < lo then None else f 0)"
| "firstDown f lo (Suc k) =
     (if Suc k < lo then None
      else case f (Suc k) of Some r \<Rightarrow> Some r | None \<Rightarrow> firstDown f lo k)"

definition prevAfter :: "nat option \<Rightarrow> nat \<Rightarrow> jstring \<Rightarrow> nat option" where
  "prevAfter p k s = (case rev (take k s) of [] \<Rightarrow> p | c # _ \<Rightarrow> Some c)"

text \<open>
  \<open>matchAt r p s\<close>: the match of \<open>r\<close> that starts exactly where \<open>s\<close> starts, \<open>p\<close> being the
  code unit before that place (\<open>None\<close> at index 0); the result is the length of the match.
\<close>

primrec matchAt :: "regex \<Rightarrow> nat option \<Rightarrow> jstring \<Rightarrow> nat option" where
  "matchAt [] = (\<lambda>p s. Some 0)"
| "matchAt (it # its) = (\<lambda>p s.
     case it of
       StartInput \<Rightarrow> if p = None then matchAt its p s else None
     | StartLine \<Rightarrow>
         if (case p of None \<Rightarrow> True | Some c \<Rightarrow> isLineTerminator c) then matchAt its p s else None
     | EndInput \<Rightarrow> if s = [] then matchAt its p s else None
     | EndLine \<Rightarrow>
         if (case s of [] \<Rightarrow> True | c # _ \<Rightarrow> isLineTerminator c) then matchAt its p s else None
     | Rep c lo hi \<Rightarrow>
         firstDown (\<lambda>k. map_option (\<lambda>r. k + r) (matchAt its (prevAfter p k s) (drop k s)))
           lo (countRun c hi s))"

text \<open>
  \<open>s.match(r)\<close> with the \<open>g\<close> flag: the matched substrings from left to right (\<open>null\<close> is
  the empty list here). After a match of length \<open>L\<close> the search resumes \<open>L\<close> code units
  later, one later after an empty match; \<open>skip\<close> counts the code units still covered by
  the last match.
\<close>

fun scanMatches :: "regex \<Rightarrow> nat option \<Rightarrow> jstring \<Rightarrow> nat \<Rightarrow> jstring list" where
  "scanMatches r p [] skip =
     (if skip = 0 \<and> matchAt r p [] \<noteq> None then [[]] else [])"
| "scanMatches r p (c # cs) skip =
     (if 0 < skip then scanMatches r (Some c) cs (skip - 1)
      else case matchAt r p (c # cs) of
             None \<Rightarrow> scanMatches r (Some c) cs 0
           | Some L \<Rightarrow> take L (c # cs) # scanMatches r (Some c) cs (L - 1))"

definition matchAll :: "regex \<Rightarrow> jstring \<Rightarrow> jstring list" where
  "matchAll r s = scanMatches r None s 0"

text \<open>
  \<open>s.split(r)\<close>: a match is tried at every index before the end; an empty match at the
  start of the current piece is passed over; a match closes the piece collected in \<open>acc\<close>
  (in reverse) and its code units are dropped. The empty string gives no piece when \<open>r\<close>
  matches it, and itself otherwise.
\<close>

fun splitScan :: "regex \<Rightarrow> nat option \<Rightarrow> jstring \<Rightarrow> nat \<Rightarrow> jstring \<Rightarrow> jstring list" where
  "splitScan r p [] skip acc = [rev acc]"
| "splitScan r p (c # cs) skip acc =
     (if 0 < skip then splitScan r (Some c) cs (skip - 1) acc
      else case matchAt r p (c # cs) of
             None \<Rightarrow> splitScan r (Some c) cs 0 (c # acc)
           | Some L \<Rightarrow>
               if L = 0 then
                 (if acc = [] then splitScan r (Some c) cs 0 [c]
                  else rev acc # splitScan r (Some c) cs 0 [c])
               else rev acc # splitScan r (Some c) cs (L - 1) [])"

definition split :: "regex \<Rightarrow> jstring \<Rightarrow> jstring list" where
  "split r s = (if s = [] then (if matchAt r None [] \<noteq> None then [] else [[]])
                else splitScan r None s 0 [])"

text \<open>\<open>s.replace(r, rep)\<close> without the \<open>g\<close> flag: the leftmost match only.\<close>

fun replaceScan :: "regex \<Rightarrow> jstring \<Rightarrow> nat option \<Rightarrow> jstring \<Rightarrow> jstring" where
  "replaceScan r rep p [] = (if matchAt r p [] \<noteq> None then rep else [])"
| "replaceScan r rep p (c # cs) =
     (case matchAt r p (c # cs) of
        None \<Rightarrow> c # replaceScan r rep (Some c) cs
      | Some L \<Rightarrow> rep @ drop L (c # cs))"

definition replaceFirst :: "regex \<Rightarrow> jstring \<Rightarrow> jstring \<Rightarrow> jstring" where
  "replaceFirst r rep s = replaceScan r rep None s"

text \<open>\<open>s.replace(r, rep)\<close> with the \<open>g\<close> flag: every match, found as \<open>match\<close> finds them.\<close>

fun replaceAllScan :: "regex \<Rightarrow> jstring \<Rightarrow> nat option \<Rightarrow> jstring \<Rightarrow> nat \<Rightarrow> jstring" where
  "replaceAllScan r rep p [] skip =
     (if skip = 0 \<and> matchAt r p [] \<noteq> None then rep else [])"
| "replaceAllScan r rep p (c # cs) skip =
     (if 0 < skip then replaceAllScan r rep (Some c) cs (skip - 1)
      else case matchAt r p (c # cs) of
             None \<Rightarrow> c # replaceAllScan r rep (Some c) cs 0
           | Some L \<Rightarrow>
               if L = 0 then rep @ c # replaceAllScan r rep (Some c) cs 0
               else rep @ replaceAllScan r rep (Some c) cs (L - 1))"

definition replaceAll :: "regex \<Rightarrow> jstring \<Rightarrow> jstring \<Rightarrow> jstring" where
  "replaceAll r rep s = replaceAllScan r rep None s 0"

section \<open>Segmentation: \<open>FileProcessor.extractNotesFromContent\<close>\<close>

datatype js_exn =
    TypeError          \<comment> \<open>a method read from \<open>undefined\<close>\<close>
  | Error jstring      \<comment> \<open>an \<open>Error\<close> with its message\<close>
  | NonError           \<comment> \<open>a thrown value that is no \<open>Error\<close>\<close>

type_synonym segment = "jstring \<times> jstring"  \<comment> \<open>\<open>{title, content}\<close>\<close>

definition headerLine :: regex where
  \<comment> \<open>\<open>/^#{1,6}\s+(.+)$/gm\<close>\<close>
  "headerLine = [StartLine, Rep (Lit 35) 1 (Some 6), Plus Space, Plus Dot, EndLine]"

definition headerMarker :: regex where
  \<comment> \<open>\<open>/^#{1,6}\s+/gm\<close>\<close>
  "headerMarker = [StartLine, Rep (Lit 35) 1 (Some 6), Plus Space]"

definition headerMarkerAtStart :: regex where
  \<comment> \<open>\<open>/^#{1,6}\s+/\<close>, without flags\<close>
  "headerMarkerAtStart = [StartInput, Rep (Lit 35) 1 (Some 6), Plus Space]"

definition numberedMarker :: regex where
  \<comment> \<open>\<open>/^\d+\.\s+/gm\<close>\<close>
  "numberedMarker = [StartLine, Plus Digit, Chr 46, Plus Space]"

definition paragraphBreak :: regex where
  \<comment> \<open>\<open>/\n\s*\n/\<close>\<close>
  "paragraphBreak = [Chr 10, Rep Space 0 None, Chr 10]"

definition bulletMarker :: regex where
  \<comment> \<open>\<open>/^[-*\<bullet>]\s+/gm\<close>, the bullet being U+2022\<close>
  "bulletMarker = [StartLine, Rep (OneOf [45, 42, 8226]) 1 (Some 1), Plus Space]"

definition rowLine :: regex where
  \<comment> \<open>\<open>/Row \d+: (.+)/g\<close>\<close>
  "rowLine = map Chr (str ''Row '') @ [Plus Digit, Chr 58, Chr 32, Plus Dot]"

definition rowPrefix :: regex where
  \<comment> \<open>\<open>/Row \d+: /\<close>\<close>
  "rowPrefix = map Chr (str ''Row '') @ [Plus Digit, Chr 58, Chr 32]"

definition extensionSuffix :: regex where
  \<comment> \<open>\<open>/\.[^/.]+$/\<close>\<close>
  "extensionSuffix = [Chr 46, Plus (NoneOf [47, 46]), EndInput]"

definition shortTitle :: "jstring \<Rightarrow> jstring" where
  \<comment> \<open>\<open>firstLine.length > 50 ? firstLine.substring(0, 50) + '...' : firstLine\<close>\<close>
  "shortTitle l = (if 50 < length l then substring 0 50 l @ str ''...'' else l)"

definition orElse :: "jstring \<Rightarrow> jstring \<Rightarrow> jstring" where
  \<comment> \<open>\<open>a || b\<close> on strings: the empty string is falsy\<close>
  "orElse a b = (if a = [] then b else a)"

text \<open>
  Method 1, the loop \<open>for (let i = 1; i < sections.length; i++)\<close>: \<open>secs\<close> are the
  sections from index \<open>i\<close> on. \<open>headerMatches[i - 1]\<close> beyond the end of the array is
  \<open>undefined\<close>, and calling \<open>replace\<close> on it throws; the exception leaves the function, so
  the notes pushed before it are lost.
\<close>

fun headerLoop :: "jstring list \<Rightarrow> jstring list \<Rightarrow> nat \<Rightarrow> js_exn + segment list" where
  "headerLoop headerMatches [] i = Inr []"
| "headerLoop headerMatches (sec # secs) i =
     (if i - 1 < length headerMatches then
        (case headerLoop headerMatches secs (i + 1) of
           Inl e \<Rightarrow> Inl e
         | Inr notes \<Rightarrow>
             Inr (if 10 < length (trim sec)
                  then (trim (replaceFirst headerMarkerAtStart [] (headerMatches ! (i - 1))), trim sec) # notes
                  else notes))
      else Inl TypeError)"

text \<open>Methods 2 and 4 share their loop; \<open>label\<close> is \<open>''Section ''\<close> or \<open>''Item ''\<close>.\<close>

fun sectionLoop :: "jstring \<Rightarrow> jstring list \<Rightarrow> nat \<Rightarrow> segment list" where
  "sectionLoop label [] i = []"
| "sectionLoop label (sec # secs) i =
     (if 20 < length (trim sec)
      then (orElse (shortTitle (firstLine (trim sec))) (label @ showNat i), trim sec)
             # sectionLoop label secs (i + 1)
      else sectionLoop label secs (i + 1))"

text \<open>Method 3, \<open>paragraphs.forEach((paragraph, index) => ...)\<close>, from \<open>index\<close> on.\<close>

fun paragraphLoop :: "jstring \<Rightarrow> jstring list \<Rightarrow> nat \<Rightarrow> segment list" where
  "paragraphLoop fileName [] index = []"
| "paragraphLoop fileName (paragraph # ps) index =
     (orElse (shortTitle (firstLine (trim paragraph)))
        (str ''Note '' @ showNat (index + 1) @ str '' from '' @ fileName), trim paragraph)
       # paragraphLoop fileName ps (index + 1)"

text \<open>
  Method 5. \<open>JSON.parse\<close> and the coercions applied to the value it returns belong to
  the runtime and are a parameter: \<open>rowFields payload\<close> is \<open>None\<close> when the \<open>try\<close> block
  throws before \<open>notes.push\<close>, and otherwise \<open>Some (first, body)\<close>, where \<open>first\<close> is
  \<open>Object.values(parsedRow)[0]\<close> as a string when that value is truthy (\<open>None\<close> when it
  is not) and \<open>body\<close> is the \<open>key: value\<close> lines joined by newlines.
\<close>

type_synonym row_fields = "jstring \<Rightarrow> (jstring option \<times> jstring) option"

fun rowLoop :: "row_fields \<Rightarrow> jstring list \<Rightarrow> nat \<Rightarrow> segment list" where
  "rowLoop rowFields [] index = []"
| "rowLoop rowFields (row # rows) index =
     (case rowFields (replaceFirst rowPrefix [] row) of
        Some (first, body) \<Rightarrow>
          (substring 0 50 (case first of Some t \<Rightarrow> t | None \<Rightarrow> str ''Row '' @ showNat (index + 1)), body)
      | None \<Rightarrow> (str ''Row '' @ showNat (index + 1), replaceFirst rowPrefix [] row))
       # rowLoop rowFields rows (index + 1)"

text \<open>
  A runtime for closed examples whose text has no row to parse: every payload is taken
  as unparsable, which sends a row to the \<open>catch\<close> branch.
\<close>

definition unparsedRows :: row_fields where
  "unparsedRows payload = None"

text \<open>The fallback: \<open>for (let i = 0; i < content.length; i += chunkSize)\<close>.\<close>

function chunksOf :: "nat \<Rightarrow> jstring \<Rightarrow> jstring list" where
  "chunksOf chunkSize s =
     (if s = [] \<or> chunkSize = 0 then [] else take chunkSize s # chunksOf chunkSize (drop chunkSize s))"
  by pat_completeness auto
termination
  by (relation "measure (\<lambda>(n, s). length s)") auto

declare chunksOf.simps [simp del]

fun chunkLoop :: "jstring \<Rightarrow> jstring list \<Rightarrow> nat \<Rightarrow> segment list" where
  "chunkLoop fileName [] index = []"
| "chunkLoop fileName (chunk # chunks) index =
     (orElse (shortTitle (firstLine (trim chunk)))
        (str ''Part '' @ showNat (index + 1) @ str '' from '' @ fileName), trim chunk)
       # chunkLoop fileName chunks (index + 1)"

definition paragraphsOf :: "jstring \<Rightarrow> jstring list" where
  \<comment> \<open>\<open>content.split(/\n\s*\n/).filter(p => p.trim().length > 50)\<close>\<close>
  "paragraphsOf content = filter (\<lambda>p. 50 < length (trim p)) (split paragraphBreak content)"

definition extractNotesFromContent :: "row_fields \<Rightarrow> jstring \<Rightarrow> jstring \<Rightarrow> js_exn + segment list" where
  "extractNotesFromContent rowFields content fileName =
     (if 1 < length (matchAll headerLine content) then
        headerLoop (matchAll headerLine content) (tl (split headerMarker content)) 1
      else if 2 < length (split numberedMarker content) then
        Inr (sectionLoop (str ''Section '') (tl (split numberedMarker content)) 1)
      else if 1 < length (paragraphsOf content) then
        Inr (paragraphLoop fileName (paragraphsOf content) 0)
      else if 2 < length (split bulletMarker content) then
        Inr (sectionLoop (str ''Item '') (tl (split bulletMarker content)) 1)
      else if (includesStr content (str ''Row 1:'') \<or> includesStr content (str ''Columns:''))
              \<and> 1 < length (matchAll rowLine content) then
        Inr (rowLoop rowFields (matchAll rowLine content) 0)
      else if 1000 < length content then
        Inr (chunkLoop fileName (chunksOf 800 content) 0)
      else
        Inr [(orElse (replaceFirst extensionSuffix [] fileName) (str ''Extracted Content''), content)])"

section \<open>Classification: \<open>SUPPORTED_TYPES\<close>, \<open>getFileExtension\<close>, \<open>getFileType\<close>\<close>

text \<open>
  The file types are the keys of \<open>SUPPORTED_TYPES\<close> and \<open>'unknown'\<close>, the only strings
  \<open>getFileType\<close> returns; \<open>typeName\<close> gives the string back.
\<close>

datatype file_type =
    TextFile | DocumentFile | SpreadsheetFile | PresentationFile | ImageFile
  | AudioFile | VideoFile | CodeFile | ArchiveFile | UnknownFile

fun typeName :: "file_type \<Rightarrow> jstring" where
  "typeName TextFile = str ''text''"
| "typeName DocumentFile = str ''document''"
| "typeName SpreadsheetFile = str ''spreadsheet''"
| "typeName PresentationFile = str ''presentation''"
| "typeName ImageFile = str ''image''"
| "typeName AudioFile = str ''audio''"
| "typeName VideoFile = str ''video''"
| "typeName CodeFile = str ''code''"
| "typeName ArchiveFile = str ''archive''"
| "typeName UnknownFile = str ''unknown''"

definition SUPPORTED_TYPES :: "(file_type \<times> jstring list) list" where
  "SUPPORTED_TYPES =
    [(TextFile, map str [''.txt'', ''.md'', ''.rtf'']),
     (DocumentFile, map str [''.pdf'', ''.doc'', ''.docx'', ''.odt'']),
     (SpreadsheetFile, map str [''.xls'', ''.xlsx'', ''.csv'', ''.ods'']),
     (PresentationFile, map str [''.ppt'', ''.pptx'', ''.odp'']),
     (ImageFile, map str [''.jpg'', ''.jpeg'', ''.png'', ''.gif'', ''.bmp'', ''.webp'', ''.svg'']),
     (AudioFile, map str [''.mp3'', ''.wav'', ''.ogg'', ''.m4a'', ''.flac'', ''.aac'']),
     (VideoFile, map str [''.mp4'', ''.avi'', ''.mov'', ''.wmv'', ''.flv'', ''.webm'', ''.mkv'']),
     (CodeFile, map str [''.js'', ''.ts'', ''.jsx'', ''.tsx'', ''.py'', ''.java'', ''.cpp'', ''.c'',
                         ''.html'', ''.css'', ''.json'', ''.xml'', ''.yaml'', ''.yml'']),
     (ArchiveFile, map str [''.zip'', ''.rar'', ''.7z'', ''.tar'', ''.gz''])]"

definition lastIndexOf :: "jstring \<Rightarrow> nat \<Rightarrow> int" where
  \<comment> \<open>\<open>s.lastIndexOf(c)\<close> for a one-unit string \<open>c\<close>; \<open>-1\<close> when \<open>c\<close> does not occur\<close>
  "lastIndexOf s c =
     (if c \<in> set s then int (length s) - 1 - int (length (takeWhile (\<lambda>x. x \<noteq> c) (rev s))) else - 1)"

definition substringFrom :: "int \<Rightarrow> jstring \<Rightarrow> jstring" where
  \<comment> \<open>\<open>s.substring(i)\<close>: a negative \<open>i\<close> counts as 0, one beyond the end as the length\<close>
  "substringFrom i s = drop (nat i) s"

text \<open>
  \<open>String.prototype.toLowerCase\<close> follows the Unicode case tables of the runtime; it is
  the parameter \<open>lc\<close> of the functions that call it.
\<close>

definition getFileExtension :: "(jstring \<Rightarrow> jstring) \<Rightarrow> jstring \<Rightarrow> jstring" where
  "getFileExtension lc filename = substringFrom (lastIndexOf filename 46) (lc filename)"

fun lookupType :: "(file_type \<times> jstring list) list \<Rightarrow> jstring \<Rightarrow> file_type" where
  "lookupType [] extension = UnknownFile"
| "lookupType ((t, extensions) # rest) extension =
     (if extension \<in> set extensions then t else lookupType rest extension)"

definition getFileType :: "jstring \<Rightarrow> file_type" where
  "getFileType extension = lookupType SUPPORTED_TYPES extension"

text \<open>
  A stand-in for \<open>toLowerCase\<close> in closed examples. It agrees with the runtime on strings
  of Basic Latin code units and of U+0130 (LATIN CAPITAL LETTER I WITH DOT ABOVE, whose
  lower case is the two code units U+0069 U+0307); other code units are left as they are.
\<close>

definition lowerUnit :: "nat \<Rightarrow> jstring" where
  "lowerUnit c = (if 65 \<le> c \<and> c \<le> 90 then [c + 32] else if c = 304 then [105, 775] else [c])"

definition toLowerCaseBasic :: "jstring \<Rightarrow> jstring" where
  "toLowerCaseBasic s = concat (map lowerUnit s)"

section \<open>Extraction: \<open>processFile\<close>\<close>

record File =
  fileName :: jstring       \<comment> \<open>\<open>name\<close>\<close>
  fileSize :: nat           \<comment> \<open>\<open>size\<close>, in bytes\<close>
  mimeType :: jstring       \<comment> \<open>\<open>type\<close>\<close>
  lastModified :: int

record Metadata =
  originalName :: jstring
  metaSize :: nat
  metaLastModified :: int
  metaType :: jstring
  thumbnail :: "jstring option"
  duration :: "nat option"

record ProcessedFile =
  pfName :: jstring                    \<comment> \<open>\<open>name\<close>\<close>
  pfType :: file_type                  \<comment> \<open>\<open>type\<close>\<close>
  pfSize :: nat                        \<comment> \<open>\<open>size\<close>\<close>
  pfContent :: jstring                 \<comment> \<open>\<open>content\<close>\<close>
  pfExtractedText :: "jstring option"  \<comment> \<open>\<open>extractedText\<close>\<close>
  pfMetadata :: "Metadata option"      \<comment> \<open>\<open>metadata\<close>\<close>

definition kilobytes :: "nat \<Rightarrow> jstring" where
  \<comment> \<open>\<open>(size / 1024).toFixed(1)\<close>: the quotient is exact in binary, and \<open>toFixed\<close> rounds
      it to the nearest tenth, a tie going up\<close>
  "kilobytes n = showNat ((n * 10 + 512) div 1024 div 10) @ [46] @ showNat ((n * 10 + 512) div 1024 mod 10)"

definition bullet :: jstring where "bullet = [8226]"
definition bulb :: jstring where "bulb = [55357, 56481]"        \<comment> \<open>U+1F4A1\<close>
definition magnifier :: jstring where "magnifier = [55357, 56589]"  \<comment> \<open>U+1F50D\<close>

definition audioTranscription :: "File \<Rightarrow> nat \<Rightarrow> jstring" where
  "audioTranscription file estimatedDuration =
     str ''[Audio Transcription from '' @ fileName file @ str '']\<newline>\<newline>'' @
     [55356, 57269] @ str '' **Audio Analysis:**\<newline>'' @
     bullet @ str '' File Size: '' @ kilobytes (fileSize file) @ str '' KB\<newline>'' @
     bullet @ str '' Estimated Duration: '' @ showNat estimatedDuration @ str '' seconds\<newline>'' @
     bullet @ str '' Format: '' @ mimeType file @ str ''\<newline>\<newline>'' @
     bulb @ str '' **Transcription Note:**\<newline>This is simulated audio transcription. In a real implementation, you would use:\<newline>'' @
     bullet @ str '' Web Speech API for browser-based transcription\<newline>'' @
     bullet @ str '' Google Speech-to-Text API\<newline>'' @
     bullet @ str '' OpenAI Whisper API\<newline>'' @
     bullet @ str '' Azure Speech Services\<newline>\<newline>'' @
     magnifier @ str '' **Content Analysis:**\<newline>'' @
     bullet @ str '' Audio appears to contain speech content\<newline>'' @
     bullet @ str '' Consider using professional transcription services for accuracy\<newline>'' @
     bullet @ str '' Multiple speakers may require speaker identification''"

definition videoTranscription :: "File \<Rightarrow> nat \<Rightarrow> jstring" where
  "videoTranscription file estimatedDuration =
     str ''[Video Analysis from '' @ fileName file @ str '']\<newline>\<newline>'' @
     [55356, 57260] @ str '' **Video Analysis:**\<newline>'' @
     bullet @ str '' File Size: '' @ kilobytes (fileSize file) @ str '' KB\<newline>'' @
     bullet @ str '' Estimated Duration: '' @ showNat estimatedDuration @ str '' seconds\<newline>'' @
     bullet @ str '' Format: '' @ mimeType file @ str ''\<newline>\<newline>'' @
     bulb @ str '' **Processing Note:**\<newline>This is simulated video analysis. In a real implementation, you would:\<newline>'' @
     bullet @ str '' Extract audio track for transcription\<newline>'' @
     bullet @ str '' Generate video thumbnails at key moments\<newline>'' @
     bullet @ str '' Use AI vision for scene analysis\<newline>'' @
     bullet @ str '' Apply object and face recognition\<newline>\<newline>'' @
     magnifier @ str '' **Content Analysis:**\<newline>'' @
     bullet @ str '' Video appears to contain both visual and audio content\<newline>'' @
     bullet @ str '' Consider using video analysis services for detailed insights\<newline>'' @
     bullet @ str '' Multiple scenes may require segmentation analysis''"

definition videoThumbnail :: jstring where
  "videoThumbnail = str ''data:image/svg+xml;base64,PHN2ZyB3aWR0aD0iMTUwIiBoZWlnaHQ9IjE1MCIgdmlld0JveD0iMCAwIDE1MCAxNTAiIGZpbGw9Im5vbmUiIHhtbG5zPSJodHRwOi8vd3d3LnczLm9yZy8yMDAwL3N2ZyI+CjxyZWN0IHdpZHRoPSIxNTAiIGhlaWdodD0iMTUwIiBmaWxsPSIjMzMzIi8+Cjx0ZXh0IHg9Ijc1IiB5PSI3NSIgZmlsbD0iI2ZmZiIgdGV4dC1hbmNob3I9Im1pZGRsZSIgZG9taW5hbnQtYmFzZWxpbmU9Im1pZGRsZSI+VmlkZW88L3RleHQ+Cjwvc3ZnPg==''"

text \<open>
  \<open>Math.floor(file.size / 16000)\<close>: for the sizes a file has, the floor of the floating
  quotient is the integer quotient.
\<close>

definition processAudioFile :: "File \<Rightarrow> jstring \<times> nat" where
  \<comment> \<open>\<open>{transcription, duration}\<close>\<close>
  "processAudioFile file =
     (audioTranscription file (fileSize file div 16000), fileSize file div 16000)"

definition processVideoFile :: "File \<Rightarrow> jstring \<times> nat \<times> jstring" where
  \<comment> \<open>\<open>{transcription, duration, thumbnail}\<close>\<close>
  "processVideoFile file =
     (videoTranscription file (fileSize file div 100000), fileSize file div 100000, videoThumbnail)"

text \<open>
  What awaiting an extractor gives is an \<open>outcome\<close>: the promise is fulfilled with a
  value, rejected with a thrown value, or never settled. \<open>processFile\<close> is written over a
  record of the extractors it awaits; \<open>sourceExtractors\<close> below gives the ones of the source.
\<close>

datatype rejection =
    ErrorObject jstring   \<comment> \<open>an \<open>Error\<close> with its \<open>message\<close>\<close>
  | OtherValue            \<comment> \<open>anything else\<close>

datatype 'a outcome = Fulfilled 'a | Rejected rejection | Pending

record Extractors =
  onText :: "File \<Rightarrow> jstring outcome"         \<comment> \<open>\<open>processTextFile\<close>\<close>
  onDocument :: "File \<Rightarrow> jstring outcome"     \<comment> \<open>\<open>processDocumentFile\<close>\<close>
  onSpreadsheet :: "File \<Rightarrow> jstring outcome"  \<comment> \<open>\<open>processSpreadsheetFile\<close>\<close>
  onImage :: "File \<Rightarrow> jstring outcome"        \<comment> \<open>\<open>processImageFile\<close>\<close>
  onThumbnail :: "File \<Rightarrow> jstring outcome"    \<comment> \<open>\<open>generateImageThumbnail\<close>\<close>
  onCode :: "File \<Rightarrow> jstring outcome"         \<comment> \<open>\<open>processCodeFile\<close>\<close>
  onArchive :: "File \<Rightarrow> jstring outcome"      \<comment> \<open>\<open>processArchiveFile\<close>\<close>
  onGeneric :: "File \<Rightarrow> jstring outcome"      \<comment> \<open>\<open>processGenericFile\<close>\<close>

definition initialMetadata :: "File \<Rightarrow> Metadata" where
  "initialMetadata file =
     \<lparr>originalName = fileName file, metaSize = fileSize file,
      metaLastModified = lastModified file, metaType = mimeType file,
      thumbnail = None, duration = None\<rparr>"

text \<open>
  The \<open>switch\<close> inside \<open>try\<close>: the extracted text and the metadata when the case runs to
  its end, the thrown value when an awaited promise is rejected.
\<close>

definition extractByType :: "Extractors \<Rightarrow> file_type \<Rightarrow> File \<Rightarrow> (jstring \<times> Metadata) outcome" where
  "extractByType ex t file =
     (case t of
        TextFile \<Rightarrow>
          (case onText ex file of
             Fulfilled text \<Rightarrow> Fulfilled (text, initialMetadata file)
           | Rejected e \<Rightarrow> Rejected e | Pending \<Rightarrow> Pending)
      | DocumentFile \<Rightarrow>
          (case onDocument ex file of
             Fulfilled text \<Rightarrow> Fulfilled (text, initialMetadata file)
           | Rejected e \<Rightarrow> Rejected e | Pending \<Rightarrow> Pending)
      | SpreadsheetFile \<Rightarrow>
          (case onSpreadsheet ex file of
             Fulfilled text \<Rightarrow> Fulfilled (text, initialMetadata file)
           | Rejected e \<Rightarrow> Rejected e | Pending \<Rightarrow> Pending)
      | ImageFile \<Rightarrow>
          (case onImage ex file of
             Fulfilled text \<Rightarrow>
               (case onThumbnail ex file of
                  Fulfilled thumb \<Rightarrow> Fulfilled (text, (initialMetadata file)\<lparr>thumbnail := Some thumb\<rparr>)
                | Rejected e \<Rightarrow> Rejected e | Pending \<Rightarrow> Pending)
           | Rejected e \<Rightarrow> Rejected e | Pending \<Rightarrow> Pending)
      | AudioFile \<Rightarrow>
          (case processAudioFile file of
             (transcription, d) \<Rightarrow> Fulfilled (transcription, (initialMetadata file)\<lparr>duration := Some d\<rparr>))
      | VideoFile \<Rightarrow>
          (case processVideoFile file of
             (transcription, d, thumb) \<Rightarrow>
               Fulfilled (transcription, (initialMetadata file)\<lparr>thumbnail := Some thumb, duration := Some d\<rparr>))
      | CodeFile \<Rightarrow>
          (case onCode ex file of
             Fulfilled text \<Rightarrow> Fulfilled (text, initialMetadata file)
           | Rejected e \<Rightarrow> Rejected e | Pending \<Rightarrow> Pending)
      | ArchiveFile \<Rightarrow>
          (case onArchive ex file of
             Fulfilled text \<Rightarrow> Fulfilled (text, initialMetadata file)
           | Rejected e \<Rightarrow> Rejected e | Pending \<Rightarrow> Pending)
      | PresentationFile \<Rightarrow>
          (case onGeneric ex file of
             Fulfilled text \<Rightarrow> Fulfilled (text, initialMetadata file)
           | Rejected e \<Rightarrow> Rejected e | Pending \<Rightarrow> Pending)
      | UnknownFile \<Rightarrow>
          (case onGeneric ex file of
             Fulfilled text \<Rightarrow> Fulfilled (text, initialMetadata file)
           | Rejected e \<Rightarrow> Rejected e | Pending \<Rightarrow> Pending))"

definition errorBanner :: "rejection \<Rightarrow> jstring" where
  \<comment> \<open>\<open>`Error processing file: ${error instanceof Error ? error.message : 'Unknown error'}`\<close>\<close>
  "errorBanner e =
     str ''Error processing file: '' @ (case e of ErrorObject m \<Rightarrow> m | OtherValue \<Rightarrow> str ''Unknown error'')"

definition processFile :: "(jstring \<Rightarrow> jstring) \<Rightarrow> Extractors \<Rightarrow> File \<Rightarrow> ProcessedFile outcome" where
  "processFile lc ex file =
     (case extractByType ex (getFileType (getFileExtension lc (fileName file))) file of
        Fulfilled (extractedText, metadata) \<Rightarrow>
          Fulfilled \<lparr>pfName = fileName file,
                     pfType = getFileType (getFileExtension lc (fileName file)),
                     pfSize = fileSize file, pfContent = extractedText,
                     pfExtractedText = Some extractedText, pfMetadata = Some metadata\<rparr>
      | Rejected e \<Rightarrow>
          Fulfilled \<lparr>pfName = fileName file,
                     pfType = getFileType (getFileExtension lc (fileName file)),
                     pfSize = fileSize file, pfContent = errorBanner e,
                     pfExtractedText = Some (errorBanner e), pfMetadata = Some (initialMetadata file)\<rparr>
      | Pending \<Rightarrow> Pending)"

section \<open>The extractors of the source\<close>

text \<open>
  The extractors read the file through the browser and through parsing libraries. What
  these give is a parameter, the record \<open>Browser\<close>:
  \<^item> \<open>readAsText\<close>, \<open>readAsDataURL\<close>: the result a \<open>FileReader\<close> loads, \<open>None\<close> when it
    fires its error event instead;
  \<^item> \<open>loadImage\<close>: the width and height of an \<open>Image\<close> element whose source is the file
    (its object URL or its data URL), \<open>None\<close> when the element fires its error event;
  \<^item> \<open>pixelLabels\<close>: colour scheme, complexity, brightness and contrast that \<open>analyzeImage\<close>
    computes from the canvas pixels of a loaded image (floating-point averages);
  \<^item> \<open>canvasDataURL\<close>: \<open>canvas.toDataURL()\<close> of the thumbnail drawn from a loaded image;
  \<^item> \<open>ratioFixed\<close>: \<open>(w / h).toFixed(2)\<close> for \<open>h > 0\<close>; \<open>localeString\<close>:
    \<open>new Date(t).toLocaleString()\<close>;
  \<^item> \<open>extractPDFText\<close>, \<open>extractWordText\<close>, \<open>processExcelFile\<close>: the text these functions of
    the source resolve with; each wraps its library calls in \<open>try\<close> and returns its own banner
    from \<open>catch\<close>, and the library's promises are taken to settle;
  \<^item> \<open>papaParse\<close>: the text that the \<open>complete\<close> or the \<open>error\<close> callback of \<open>Papa.parse\<close>
    resolves \<open>processCSVFile\<close> with.
\<close>

record Browser =
  readAsText :: "File \<Rightarrow> jstring option"
  readAsDataURL :: "File \<Rightarrow> jstring option"
  loadImage :: "File \<Rightarrow> (nat \<times> nat) option"
  pixelLabels :: "File \<Rightarrow> jstring \<times> jstring \<times> jstring \<times> jstring"
  canvasDataURL :: "File \<Rightarrow> jstring"
  ratioFixed :: "nat \<Rightarrow> nat \<Rightarrow> jstring"
  localeString :: "int \<Rightarrow> jstring"
  extractPDFText :: "File \<Rightarrow> jstring"
  extractWordText :: "File \<Rightarrow> jstring"
  processExcelFile :: "File \<Rightarrow> jstring"
  papaParse :: "File \<Rightarrow> jstring \<Rightarrow> jstring"

definition processTextFile :: "Browser \<Rightarrow> File \<Rightarrow> jstring outcome" where
  \<comment> \<open>\<open>reader.onload\<close> resolves, \<open>reader.onerror\<close> rejects\<close>
  "processTextFile br file =
     (case readAsText br file of
        Some text \<Rightarrow> Fulfilled text
      | None \<Rightarrow> Rejected (ErrorObject (str ''Failed to read text file'')))"

definition processDocumentFile :: "(jstring \<Rightarrow> jstring) \<Rightarrow> Browser \<Rightarrow> File \<Rightarrow> jstring outcome" where
  "processDocumentFile lc br file =
     Fulfilled
       (if getFileExtension lc (fileName file) = str ''.pdf'' then extractPDFText br file
        else if getFileExtension lc (fileName file) = str ''.docx'' then extractWordText br file
        else if getFileExtension lc (fileName file) = str ''.doc''
          then str ''Legacy .doc files are not supported. Please convert to .docx format.''
        else str ''Document content extraction not yet implemented for ''
               @ getFileExtension lc (fileName file) @ str '' files.'')"

definition processCSVFile :: "Browser \<Rightarrow> File \<Rightarrow> jstring outcome" where
  \<comment> \<open>only \<open>reader.onload\<close> is set: when the reader fails, the promise is never settled\<close>
  "processCSVFile br file =
     (case readAsText br file of
        Some csvText \<Rightarrow> Fulfilled (papaParse br file csvText)
      | None \<Rightarrow> Pending)"

definition processSpreadsheetFile :: "(jstring \<Rightarrow> jstring) \<Rightarrow> Browser \<Rightarrow> File \<Rightarrow> jstring outcome" where
  "processSpreadsheetFile lc br file =
     (if getFileExtension lc (fileName file) = str ''.csv'' then processCSVFile br file
      else if getFileExtension lc (fileName file) \<in> set [str ''.xls'', str ''.xlsx'']
        then Fulfilled (processExcelFile br file)
      else Fulfilled (str ''[Spreadsheet File: '' @ fileName file
             @ str '']\<newline>\<newline>Unsupported spreadsheet format: ''
             @ getFileExtension lc (fileName file)))"

record ImageInfo =
  imgWidth :: nat          \<comment> \<open>\<open>width\<close>\<close>
  imgHeight :: nat         \<comment> \<open>\<open>height\<close>\<close>
  colorScheme :: jstring
  complexity :: jstring
  brightness :: jstring
  contrast :: jstring

definition analyzeImage :: "Browser \<Rightarrow> File \<Rightarrow> ImageInfo" where
  \<comment> \<open>\<open>img.onload\<close> resolves with the analysis, \<open>img.onerror\<close> with zeros and \<open>Unknown\<close>;
      the field \<open>hasText\<close>, which \<open>processImageFile\<close> does not read, is left out\<close>
  "analyzeImage br file =
     (case loadImage br file of
        Some (w, h) \<Rightarrow>
          (case pixelLabels br file of
             (scheme, cplx, bright, contr) \<Rightarrow>
               \<lparr>imgWidth = w, imgHeight = h, colorScheme = scheme, complexity = cplx,
                brightness = bright, contrast = contr\<rparr>)
      | None \<Rightarrow>
          \<lparr>imgWidth = 0, imgHeight = 0, colorScheme = str ''Unknown'', complexity = str ''Unknown'',
           brightness = str ''Unknown'', contrast = str ''Unknown''\<rparr>)"

definition detectTextInImage :: "Browser \<Rightarrow> File \<Rightarrow> bool" where
  "detectTextInImage br file =
     (case loadImage br file of Some (w, h) \<Rightarrow> 800 < w \<and> 600 < h | None \<Rightarrow> False)"

definition aspectRatio :: "Browser \<Rightarrow> nat \<Rightarrow> nat \<Rightarrow> jstring" where
  \<comment> \<open>\<open>(width / height).toFixed(2)\<close>: \<open>0 / 0\<close> is \<open>NaN\<close>, \<open>w / 0\<close> is \<open>Infinity\<close>\<close>
  "aspectRatio br w h =
     (if h = 0 then (if w = 0 then str ''NaN'' else str ''Infinity'') else ratioFixed br w h)"

definition imageReport :: "Browser \<Rightarrow> File \<Rightarrow> ImageInfo \<Rightarrow> bool \<Rightarrow> jstring" where
  \<comment> \<open>the \<open>output\<close> that \<open>processImageFile\<close> builds from \<open>imageInfo\<close> and \<open>hasText\<close>\<close>
  "imageReport br file imageInfo hasText =
     str ''[Image Analysis: '' @ fileName file @ str '']\<newline>\<newline>'' @
     [55357, 56568] @ str '' **Image Details:**\<newline>'' @
     bullet @ str '' File Size: '' @ kilobytes (fileSize file) @ str '' KB\<newline>'' @
     bullet @ str '' Format: '' @ mimeType file @ str ''\<newline>'' @
     bullet @ str '' Dimensions: '' @ showNat (imgWidth imageInfo) @ str ''x''
       @ showNat (imgHeight imageInfo) @ str ''px\<newline>'' @
     bullet @ str '' Aspect Ratio: '' @ aspectRatio br (imgWidth imageInfo) (imgHeight imageInfo)
       @ str '':1\<newline>\<newline>'' @
     magnifier @ str '' **Visual Analysis:**\<newline>'' @
     bullet @ str '' Color Scheme: '' @ colorScheme imageInfo @ str ''\<newline>'' @
     bullet @ str '' Complexity: '' @ complexity imageInfo @ str ''\<newline>'' @
     bullet @ str '' Brightness: '' @ brightness imageInfo @ str ''\<newline>'' @
     bullet @ str '' Contrast: '' @ contrast imageInfo @ str ''\<newline>\<newline>'' @
     [55357, 56541] @ str '' **Content Detection:**\<newline>'' @
     (if hasText then
        bullet @ str '' '' @ [9989] @ str '' Text content detected\<newline>'' @
        bullet @ str '' '' @ bulb @ str '' This image likely contains readable text\<newline>'' @
        bullet @ str '' '' @ magnifier @ str '' Consider using OCR services for full text extraction\<newline>''
      else
        bullet @ str '' '' @ [10060] @ str '' No text content detected\<newline>'' @
        bullet @ str '' '' @ [55356, 57256] @ str '' This appears to be a visual/image-only file\<newline>'') @
     str ''\<newline>'' @ bulb @ str '' **Suggested Actions:**\<newline>'' @
     (if hasText then
        bullet @ str '' Use OCR tools for text extraction\<newline>'' @
        bullet @ str '' Apply AI vision models for detailed analysis\<newline>'' @
        bullet @ str '' Consider image optimization for web use\<newline>''
      else
        bullet @ str '' Use AI vision for object/scene recognition\<newline>'' @
        bullet @ str '' Apply image analysis for content understanding\<newline>'' @
        bullet @ str '' Consider adding descriptive tags\<newline>'') @
     str ''\<newline>*Note: This is an enhanced analysis. For detailed text extraction, consider using OCR services.*''"

definition processImageFile :: "Browser \<Rightarrow> File \<Rightarrow> jstring outcome" where
  \<comment> \<open>both awaited promises always resolve, so the \<open>catch\<close> branch is not taken\<close>
  "processImageFile br file =
     Fulfilled (imageReport br file (analyzeImage br file) (detectTextInImage br file))"

definition generateImageThumbnail :: "Browser \<Rightarrow> File \<Rightarrow> jstring outcome" where
  \<comment> \<open>only \<open>reader.onload\<close> and \<open>img.onload\<close> are set, and nothing rejects: when the reader
      or the image fails, the promise is never settled\<close>
  "generateImageThumbnail br file =
     (case readAsDataURL br file of
        Some url \<Rightarrow>
          (case loadImage br file of
             Some dims \<Rightarrow> Fulfilled (canvasDataURL br file)
           | None \<Rightarrow> Pending)
      | None \<Rightarrow> Pending)"

definition getLanguageFromExtension :: "jstring \<Rightarrow> jstring" where
  "getLanguageFromExtension extension =
     (case map_of
        [(str ''.js'', str ''JavaScript''), (str ''.ts'', str ''TypeScript''),
         (str ''.jsx'', str ''React JSX''), (str ''.tsx'', str ''React TSX''),
         (str ''.py'', str ''Python''), (str ''.java'', str ''Java''),
         (str ''.cpp'', str ''C++''), (str ''.c'', str ''C''),
         (str ''.html'', str ''HTML''), (str ''.css'', str ''CSS''),
         (str ''.json'', str ''JSON''), (str ''.xml'', str ''XML''),
         (str ''.yaml'', str ''YAML''), (str ''.yml'', str ''YAML'')] extension of
        Some language \<Rightarrow> language
      | None \<Rightarrow> str ''Unknown'')"

definition codeReport :: "(jstring \<Rightarrow> jstring) \<Rightarrow> File \<Rightarrow> jstring \<Rightarrow> jstring" where
  \<comment> \<open>\<open>text.split('\n').length\<close> is the number of newlines plus one\<close>
  "codeReport lc file text =
     str ''[Code File: '' @ fileName file @ str '']\<newline>\<newline>'' @
     [55357, 56507] @ str '' **Code Analysis:**\<newline>'' @
     bullet @ str '' Language: '' @ getLanguageFromExtension (getFileExtension lc (fileName file))
       @ str ''\<newline>'' @
     bullet @ str '' Lines: '' @ showNat (length (filter (\<lambda>c. c = 10) text) + 1) @ str ''\<newline>'' @
     bullet @ str '' Size: '' @ showNat (fileSize file) @ str '' bytes\<newline>'' @
     bullet @ str '' Characters: '' @ showNat (length text) @ str ''\<newline>\<newline>'' @
     [55357, 56541] @ str '' **Source Code:**\<newline>'' @
     [96, 96, 96] @ lc (getLanguageFromExtension (getFileExtension lc (fileName file)))
       @ str ''\<newline>'' @ text @ str ''\<newline>'' @ [96, 96, 96] @ str ''\<newline>\<newline>'' @
     magnifier @ str '' **Code Insights:**\<newline>'' @
     bullet @ str '' This appears to be a ''
       @ getLanguageFromExtension (getFileExtension lc (fileName file)) @ str '' source file\<newline>'' @
     bullet @ str '' Consider using syntax highlighting for better readability\<newline>'' @
     bullet @ str '' Code analysis tools can provide additional insights''"

definition processCodeFile :: "(jstring \<Rightarrow> jstring) \<Rightarrow> Browser \<Rightarrow> File \<Rightarrow> jstring outcome" where
  \<comment> \<open>\<open>await this.processTextFile(file)\<close> outside any \<open>try\<close>: its rejection is the function's\<close>
  "processCodeFile lc br file =
     (case processTextFile br file of
        Fulfilled text \<Rightarrow> Fulfilled (codeReport lc file text)
      | Rejected e \<Rightarrow> Rejected e
      | Pending \<Rightarrow> Pending)"

definition processArchiveFile :: "(jstring \<Rightarrow> jstring) \<Rightarrow> Browser \<Rightarrow> File \<Rightarrow> jstring outcome" where
  "processArchiveFile lc br file =
     Fulfilled
       (str ''[Archive File: '' @ fileName file @ str '']\<newline>\<newline>'' @
        [55357, 56550] @ str '' **Archive Analysis:**\<newline>'' @
        bullet @ str '' File Size: '' @ kilobytes (fileSize file) @ str '' KB\<newline>'' @
        bullet @ str '' Type: '' @ mimeType file @ str ''\<newline>'' @
        bullet @ str '' Format: '' @ getFileExtension lc (fileName file) @ str ''\<newline>\<newline>'' @
        bulb @ str '' **Processing Note:**\<newline>This is simulated archive analysis. In a real implementation, you would:\<newline>'' @
        bullet @ str '' Use JSZip or similar libraries for extraction\<newline>'' @
        bullet @ str '' Analyze archive contents and structure\<newline>'' @
        bullet @ str '' Extract individual files for processing\<newline>'' @
        bullet @ str '' Provide content previews\<newline>\<newline>'' @
        magnifier @ str '' **Content Analysis:**\<newline>'' @
        bullet @ str '' Archive appears to contain multiple files\<newline>'' @
        bullet @ str '' Consider extracting and processing individual components\<newline>'' @
        bullet @ str '' Archive size suggests substantial content'')"

definition genericReport :: "Browser \<Rightarrow> File \<Rightarrow> jstring \<Rightarrow> jstring" where
  "genericReport br file text =
     str ''[Generic File: '' @ fileName file @ str '']\<newline>\<newline>'' @
     [55357, 56516] @ str '' **File Analysis:**\<newline>'' @
     bullet @ str '' Type: '' @ mimeType file @ str ''\<newline>'' @
     bullet @ str '' Size: '' @ kilobytes (fileSize file) @ str '' KB\<newline>'' @
     bullet @ str '' Last Modified: '' @ localeString br (lastModified file) @ str ''\<newline>\<newline>'' @
     [55357, 56541] @ str '' **Content Preview:**\<newline>'' @
     (if 500 < length text then substring 0 500 text @ str ''...'' else text) @ str ''\<newline>\<newline>'' @
     bulb @ str '' **Note:** This file was processed as generic text. Consider using specialized tools for better analysis.''"

definition binaryReport :: "Browser \<Rightarrow> File \<Rightarrow> jstring" where
  "binaryReport br file =
     str ''[Binary File: '' @ fileName file @ str '']\<newline>\<newline>'' @
     [55357, 56594] @ str '' **Binary File Analysis:**\<newline>'' @
     bullet @ str '' Type: '' @ mimeType file @ str ''\<newline>'' @
     bullet @ str '' Size: '' @ kilobytes (fileSize file) @ str '' KB\<newline>'' @
     bullet @ str '' Last Modified: '' @ localeString br (lastModified file) @ str ''\<newline>\<newline>'' @
     [9888, 65039] @ str '' **Content Note:**\<newline>This appears to be a binary file that cannot be processed as text.\<newline>\<newline>'' @
     bulb @ str '' **Suggestions:**\<newline>'' @
     bullet @ str '' Use specialized binary analysis tools\<newline>'' @
     bullet @ str '' Check if file has a text-based format\<newline>'' @
     bullet @ str '' Consider file conversion if possible''"

definition processGenericFile :: "Browser \<Rightarrow> File \<Rightarrow> jstring outcome" where
  \<comment> \<open>\<open>try { ... await this.processTextFile(file) ... } catch { ... }\<close>\<close>
  "processGenericFile br file =
     (case processTextFile br file of
        Fulfilled text \<Rightarrow> Fulfilled (genericReport br file text)
      | Rejected e \<Rightarrow> Fulfilled (binaryReport br file)
      | Pending \<Rightarrow> Pending)"

definition sourceExtractors :: "(jstring \<Rightarrow> jstring) \<Rightarrow> Browser \<Rightarrow> Extractors" where
  "sourceExtractors lc br =
     \<lparr>onText = processTextFile br,
      onDocument = processDocumentFile lc br,
      onSpreadsheet = processSpreadsheetFile lc br,
      onImage = processImageFile br,
      onThumbnail = generateImageThumbnail br,
      onCode = processCodeFile lc br,
      onArchive = processArchiveFile lc br,
      onGeneric = processGenericFile br\<rparr>"

section \<open>Synthesis: \<open>createNotesFromProcessedFile\<close>\<close>

datatype note_type = TextNote | DocumentNote | ImageNote | AudioNote | VideoNote

record Note =
  noteId :: jstring                    \<comment> \<open>\<open>id\<close>\<close>
  title :: jstring
  content :: jstring
  noteType :: note_type                \<comment> \<open>\<open>type\<close>\<close>
  tags :: "jstring list"
  category :: jstring
  createdAt :: int
  updatedAt :: int
  summary :: jstring
  transcription :: "jstring option"
  isStarred :: bool
  fileUrl :: "jstring option"
  noteDuration :: "nat option"         \<comment> \<open>\<open>duration\<close>\<close>
  sourceFile :: jstring
  extractedFrom :: jstring

fun mapFileTypeToNoteType :: "file_type \<Rightarrow> note_type" where
  "mapFileTypeToNoteType TextFile = TextNote"
| "mapFileTypeToNoteType DocumentFile = DocumentNote"
| "mapFileTypeToNoteType SpreadsheetFile = DocumentNote"
| "mapFileTypeToNoteType PresentationFile = DocumentNote"
| "mapFileTypeToNoteType CodeFile = TextNote"
| "mapFileTypeToNoteType ImageFile = ImageNote"
| "mapFileTypeToNoteType AudioFile = AudioNote"
| "mapFileTypeToNoteType VideoFile = VideoNote"
| "mapFileTypeToNoteType ArchiveFile = DocumentNote"
| "mapFileTypeToNoteType UnknownFile = DocumentNote"

definition generateSmartTags :: "(jstring \<Rightarrow> jstring) \<Rightarrow> ProcessedFile \<Rightarrow> jstring list" where
  "generateSmartTags lc processedFile =
     (if 10 * 1024 * 1024 < pfSize processedFile then [str ''large-file''] else []) @
     (if pfSize processedFile < 1024 then [str ''small-file''] else []) @
     (if includesStr (lc (pfContent processedFile)) (str ''meeting'')
         \<or> includesStr (lc (pfContent processedFile)) (str ''agenda'') then [str ''meeting''] else []) @
     (if includesStr (lc (pfContent processedFile)) (str ''project'')
         \<or> includesStr (lc (pfContent processedFile)) (str ''task'') then [str ''project''] else []) @
     (if includesStr (lc (pfContent processedFile)) (str ''research'')
         \<or> includesStr (lc (pfContent processedFile)) (str ''study'') then [str ''research''] else []) @
     (if includesStr (lc (pfContent processedFile)) (str ''report'')
         \<or> includesStr (lc (pfContent processedFile)) (str ''analysis'') then [str ''report''] else []) @
     (if includesStr (lc (pfContent processedFile)) (str ''presentation'')
         \<or> includesStr (lc (pfContent processedFile)) (str ''slide'') then [str ''presentation''] else [])"

definition generateSummary :: "ProcessedFile \<Rightarrow> jstring" where
  "generateSummary processedFile =
     (if length (pfContent processedFile) \<le> 200 then pfContent processedFile
      else trim (substring 0 150 (pfContent processedFile)) @
           (if length (trim (substring 0 150 (pfContent processedFile))) < length (pfContent processedFile)
            then str ''...'' else []))"

definition baseFileName :: "ProcessedFile \<Rightarrow> jstring" where
  \<comment> \<open>\<open>processedFile.name.replace(/\.[^/.]+$/, '')\<close>\<close>
  "baseFileName processedFile = replaceFirst extensionSuffix [] (pfName processedFile)"

definition noteTags :: "(jstring \<Rightarrow> jstring) \<Rightarrow> ProcessedFile \<Rightarrow> jstring list" where
  \<comment> \<open>the \<open>tags\<close> array literal; \<open>/\s+/g\<close> is \<open>[Plus Space]\<close>\<close>
  "noteTags lc processedFile =
     [typeName (pfType processedFile), str ''uploaded'', str ''extracted'',
      replaceAll [Plus Space] (str ''-'') (lc (baseFileName processedFile))]
     @ generateSmartTags lc processedFile"

text \<open>
  \<open>Date.now()\<close> and \<open>Math.random().toString(36).substr(2, 9)\<close> are read once for each
  note; \<open>dateNow index\<close> and \<open>randomSuffix index\<close> are what they give for the note at
  \<open>index\<close>, and \<open>now\<close> is the \<open>new Date()\<close> taken before the notes are built.
\<close>

record Clock =
  now :: int
  dateNow :: "nat \<Rightarrow> int"
  randomSuffix :: "nat \<Rightarrow> jstring"

definition idAt :: "Clock \<Rightarrow> nat \<Rightarrow> jstring" where
  \<comment> \<open>\<open>`file_${Date.now()}_${index}_${Math.random().toString(36).substr(2, 9)}`\<close>\<close>
  "idAt clock index =
     str ''file_'' @ showInt (dateNow clock index) @ str ''_'' @ showNat index
       @ str ''_'' @ randomSuffix clock index"

definition makeNote ::
  "(jstring \<Rightarrow> jstring) \<Rightarrow> Clock \<Rightarrow> ProcessedFile \<Rightarrow> jstring \<Rightarrow> nat \<Rightarrow> segment \<Rightarrow> nat \<Rightarrow> Note" where
  \<comment> \<open>the callback of \<open>extractedNotes.map\<close>; \<open>len\<close> is \<open>extractedNotes.length\<close>\<close>
  "makeNote lc clock processedFile cat len extractedNote index =
     \<lparr>noteId = idAt clock index,
      title = fst extractedNote,
      content = snd extractedNote,
      noteType = mapFileTypeToNoteType (pfType processedFile),
      tags = noteTags lc processedFile,
      category = cat,
      createdAt = now clock,
      updatedAt = now clock,
      summary = generateSummary (processedFile\<lparr>pfContent := snd extractedNote\<rparr>),
      transcription =
        (if pfType processedFile = AudioFile \<or> pfType processedFile = VideoFile
         then pfExtractedText processedFile else None),
      isStarred = False,
      fileUrl =
        (case pfMetadata processedFile of
           None \<Rightarrow> None
         | Some m \<Rightarrow> (case thumbnail m of None \<Rightarrow> None | Some t \<Rightarrow> if t = [] then None else Some t)),
      noteDuration = (case pfMetadata processedFile of None \<Rightarrow> None | Some m \<Rightarrow> duration m),
      sourceFile = pfName processedFile,
      extractedFrom =
        baseFileName processedFile @ str '' ('' @
        (if 1 < len then showNat (index + 1) @ str '' of '' @ showNat len else str ''single note'')
        @ str '')''\<rparr>"

fun mapNotes ::
  "(jstring \<Rightarrow> jstring) \<Rightarrow> Clock \<Rightarrow> ProcessedFile \<Rightarrow> jstring \<Rightarrow> nat \<Rightarrow> segment list \<Rightarrow> nat \<Rightarrow> Note list" where
  "mapNotes lc clock processedFile cat len [] index = []"
| "mapNotes lc clock processedFile cat len (extractedNote # rest) index =
     makeNote lc clock processedFile cat len extractedNote index
       # mapNotes lc clock processedFile cat len rest (index + 1)"

definition createNotesFromProcessedFile ::
  "(jstring \<Rightarrow> jstring) \<Rightarrow> row_fields \<Rightarrow> Clock \<Rightarrow> ProcessedFile \<Rightarrow> jstring \<Rightarrow> js_exn + Note list" where
  "createNotesFromProcessedFile lc rowFields clock processedFile cat =
     (case extractNotesFromContent rowFields (pfContent processedFile) (pfName processedFile) of
        Inl e \<Rightarrow> Inl e
      | Inr extractedNotes \<Rightarrow>
          if extractedNotes = [] then Inr []
          else Inr (mapNotes lc clock processedFile cat (length extractedNotes) extractedNotes 0))"

section \<open>The speech service: \<open>estimateAudioDuration\<close>\<close>

text \<open>
  \<open>(audioBlob.size * 8) / avgBitrate\<close>, between 1 and 7200. The quotient is taken exactly;
  the rounding of the source's floating division to the nearest double is not modelled.
\<close>

definition avgBitrate :: "jstring \<Rightarrow> nat" where
  "avgBitrate format =
     (if includesStr format (str ''webm'') then 32000
      else if includesStr format (str ''mp3'') then 128000
      else if includesStr format (str ''wav'') then 1411000
      else if includesStr format (str ''m4a'') then 256000
      else 24000)"

definition estimateAudioDuration :: "jstring \<Rightarrow> nat \<Rightarrow> rat" where
  \<comment> \<open>the blob's \<open>type\<close> and \<open>size\<close>\<close>
  "estimateAudioDuration format blobSize =
     max 1 (min (of_nat (blobSize * 8) / of_nat (avgBitrate format)) 7200)"

section \<open>Closed examples\<close>

text \<open>
  Extractors for closed examples: each rejects as \<open>processTextFile\<close> does when the
  browser cannot read the file (\<open>reject(new Error('Failed to read text file'))\<close>).
\<close>

definition unreadable :: Extractors where
  "unreadable =
     \<lparr>onText = (\<lambda>file. Rejected (ErrorObject (str ''Failed to read text file''))),
      onDocument = (\<lambda>file. Rejected (ErrorObject (str ''Failed to read text file''))),
      onSpreadsheet = (\<lambda>file. Rejected (ErrorObject (str ''Failed to read text file''))),
      onImage = (\<lambda>file. Rejected (ErrorObject (str ''Failed to read text file''))),
      onThumbnail = (\<lambda>file. Rejected (ErrorObject (str ''Failed to read text file''))),
      onCode = (\<lambda>file. Rejected (ErrorObject (str ''Failed to read text file''))),
      onArchive = (\<lambda>file. Rejected (ErrorObject (str ''Failed to read text file''))),
      onGeneric = (\<lambda>file. Rejected (ErrorObject (str ''Failed to read text file'')))\<rparr>"

text \<open>\<open>metadata.duration\<close> of the file that \<open>processFile\<close> is fulfilled with.\<close>

definition durationOf :: "ProcessedFile outcome \<Rightarrow> nat option" where
  "durationOf r =
     (case r of
        Fulfilled pf \<Rightarrow> (case pfMetadata pf of Some m \<Rightarrow> duration m | None \<Rightarrow> None)
      | Rejected e \<Rightarrow> None
      | Pending \<Rightarrow> None)"

text \<open>
  A browser that reads the bytes of a file but cannot decode them as an image, and an
  image file.
\<close>

definition undecodable :: Browser where
  "undecodable =
     \<lparr>readAsText = (\<lambda>file. Some []),
      readAsDataURL = (\<lambda>file. Some (str ''data:image/png;base64,AAAA'')),
      loadImage = (\<lambda>file. None),
      pixelLabels = (\<lambda>file. ([], [], [], [])),
      canvasDataURL = (\<lambda>file. []),
      ratioFixed = (\<lambda>w h. []),
      localeString = (\<lambda>t. []),
      extractPDFText = (\<lambda>file. []),
      extractWordText = (\<lambda>file. []),
      processExcelFile = (\<lambda>file. []),
      papaParse = (\<lambda>file csvText. [])\<rparr>"

definition corruptPhoto :: File where
  "corruptPhoto = \<lparr>fileName = str ''photo.png'', fileSize = 2048, mimeType = str ''image/png'',
                    lastModified = 0\<rparr>"

text \<open>Scenario A of the specification, and an upload that holds it.\<close>

definition twoHeadings :: jstring where
  "twoHeadings = str ''# Intro\<newline>Hello\<newline>\<newline># Details\<newline>World''"

definition exampleClock :: Clock where
  "exampleClock = \<lparr>now = 1700000000000, dateNow = (\<lambda>index. 1700000000000),
                    randomSuffix = (\<lambda>index. str ''k3j9x2a1b'')\<rparr>"

definition exampleUpload :: ProcessedFile where
  "exampleUpload = \<lparr>pfName = str ''My Notes.md'', pfType = TextFile, pfSize = 29,
     pfContent = twoHeadings, pfExtractedText = Some twoHeadings, pfMetadata = None\<rparr>"

text \<open>An upload whose second section alone speaks of a meeting.\<close>

definition minutes :: jstring where
  "minutes = str ''# Groceries\<newline>Milk and eggs\<newline>\<newline># Friday\<newline>Meeting at ten''"

definition minutesUpload :: ProcessedFile where
  "minutesUpload = \<lparr>pfName = str ''To Do.md'', pfType = TextFile, pfSize = 52,
     pfContent = minutes, pfExtractedText = Some minutes, pfMetadata = None\<rparr>"

text \<open>A text with no structure at all.\<close>

definition plainText :: jstring where
  "plainText = str ''Buy milk and eggs''"

lemmas classify_simps = getFileType_def getFileExtension_def lastIndexOf_def substringFrom_def
  toLowerCaseBasic_def lowerUnit_def SUPPORTED_TYPES_def str_def

lemmas regex_simps = str_def Plus_def Chr_def isWhiteSpace_def isLineTerminator_def prevAfter_def
  matchAll_def split_def replaceFirst_def replaceAll_def trim_def substring_def firstLine_def
  shortTitle_def orElse_def

section \<open>Properties of the classifier table\<close>

lemma concat_distinct_disjoint:
  "distinct (concat (map snd tbl)) \<Longrightarrow> (c1, e1) \<in> set tbl \<Longrightarrow> (c2, e2) \<in> set tbl
     \<Longrightarrow> (c1, e1) \<noteq> (c2, e2) \<Longrightarrow> set e1 \<inter> set e2 = {}"
proof (induction tbl)
  case Nil
  then show ?case by simp
next
  case (Cons row tbl)
  from Cons.prems(1) have d: "distinct (concat (map snd tbl))"
    and disj: "set (snd row) \<inter> set (concat (map snd tbl)) = {}" by auto
  have sub: "\<And>c e. (c, e) \<in> set tbl \<Longrightarrow> set e \<subseteq> set (concat (map snd tbl))"
    by force
  consider "(c1, e1) = row" "(c2, e2) \<in> set tbl" | "(c2, e2) = row" "(c1, e1) \<in> set tbl"
    | "(c1, e1) \<in> set tbl" "(c2, e2) \<in> set tbl"
    using Cons.prems by auto
  then show ?case
  proof cases
    case 1
    then have "set e1 = set (snd row)" by auto
    with disj sub [OF 1(2)] show ?thesis by blast
  next
    case 2
    then have "set e2 = set (snd row)" by auto
    with disj sub [OF 2(2)] show ?thesis by blast
  next
    case 3
    with Cons.IH d Cons.prems(4) show ?thesis by blast
  qed
qed

lemma extensions_distinct: "distinct (concat (map snd SUPPORTED_TYPES))"
  by (simp add: SUPPORTED_TYPES_def str_def)

text \<open>
  C7. No extension of \<open>SUPPORTED_TYPES\<close> is listed under two categories: the extension
  lists of any two distinct categories of the table are disjoint.
\<close>

theorem supported_types_disjoint:
  "(c1, e1) \<in> set SUPPORTED_TYPES \<Longrightarrow> (c2, e2) \<in> set SUPPORTED_TYPES \<Longrightarrow> c1 \<noteq> c2
     \<Longrightarrow> set e1 \<inter> set e2 = {}"
  using concat_distinct_disjoint [OF extensions_distinct, of c1 e1 c2 e2] by simp

theorem supported_types_disjoint_witness:
  "(TextFile, map str [''.txt'', ''.md'', ''.rtf'']) \<in> set SUPPORTED_TYPES
   \<and> (DocumentFile, map str [''.pdf'', ''.doc'', ''.docx'', ''.odt'']) \<in> set SUPPORTED_TYPES
   \<and> TextFile \<noteq> DocumentFile
   \<and> set (map str [''.txt'', ''.md'', ''.rtf'']) \<inter> set (map str [''.pdf'', ''.doc'', ''.docx'', ''.odt'']) = {}"
proof -
  have a: "(TextFile, map str [''.txt'', ''.md'', ''.rtf'']) \<in> set SUPPORTED_TYPES"
    by (simp add: SUPPORTED_TYPES_def)
  have b: "(DocumentFile, map str [''.pdf'', ''.doc'', ''.docx'', ''.odt'']) \<in> set SUPPORTED_TYPES"
    by (simp add: SUPPORTED_TYPES_def)
  have c: "TextFile \<noteq> DocumentFile" by simp
  from supported_types_disjoint [OF a b c] a b c show ?thesis by blast
qed

section \<open>Properties of the extractive summary\<close>

lemma length_trim_le: "length (trim s) \<le> length s"
proof -
  have "length (dropWhile isWhiteSpace (rev (dropWhile isWhiteSpace s)))
          \<le> length (rev (dropWhile isWhiteSpace s))"
    by (rule length_dropWhile_le)
  also have "\<dots> \<le> length s" by (simp add: length_dropWhile_le)
  finally show ?thesis by (simp add: trim_def)
qed

text \<open>
  C8. The summary of a content of at most 200 code units is the content itself; of a longer
  content it is its first 150 code units, trimmed, followed by three dots.
\<close>

theorem generateSummary_extractive:
  "(length (pfContent pf) \<le> 200 \<longrightarrow> generateSummary pf = pfContent pf) \<and>
   (200 < length (pfContent pf) \<longrightarrow> generateSummary pf = trim (take 150 (pfContent pf)) @ str ''...'')"
proof -
  have "length (trim (take 150 (pfContent pf))) \<le> 150"
    using length_trim_le [of "take 150 (pfContent pf)"] by simp
  then show ?thesis
    by (simp add: generateSummary_def substring_def)
qed

theorem generateSummary_extractive_witness:
  "length (str ''Hello'') \<le> 200
   \<and> generateSummary \<lparr>pfName = str ''a.txt'', pfType = TextFile, pfSize = 5, pfContent = str ''Hello'',
        pfExtractedText = None, pfMetadata = None\<rparr> = str ''Hello''
   \<and> 200 < length (replicate 149 97 @ 32 # replicate 100 98)
   \<and> generateSummary \<lparr>pfName = str ''a.txt'', pfType = TextFile, pfSize = 250,
        pfContent = replicate 149 97 @ 32 # replicate 100 98,
        pfExtractedText = None, pfMetadata = None\<rparr> = replicate 149 97 @ str ''...''"
  using generateSummary_extractive [of "\<lparr>pfName = str ''a.txt'', pfType = TextFile, pfSize = 5,
          pfContent = str ''Hello'', pfExtractedText = None, pfMetadata = None\<rparr>"]
        generateSummary_extractive [of "\<lparr>pfName = str ''a.txt'', pfType = TextFile, pfSize = 250,
          pfContent = replicate 149 97 @ 32 # replicate 100 98, pfExtractedText = None, pfMetadata = None\<rparr>"]
  by (simp add: str_def trim_def isWhiteSpace_def isLineTerminator_def)

section \<open>Properties of \<open>processFile\<close>\<close>

text \<open>
  Over any extractors, \<open>processFile\<close> is never rejected. When the extractor called for
  the file's type throws, the promise is fulfilled with a file whose content is the banner
  \<open>Error processing file: \<close> followed by the error's message (\<open>Unknown error\<close> for a thrown
  value that is no \<open>Error\<close>); and whenever the extractor settles, \<open>processFile\<close> is fulfilled.
\<close>

theorem processFile_never_rejects:
  "processFile lc ex file \<noteq> Rejected e
   \<and> (extractByType ex (getFileType (getFileExtension lc (fileName file))) file = Rejected e \<longrightarrow>
        (\<exists>pf. processFile lc ex file = Fulfilled pf
           \<and> pfContent pf = str ''Error processing file: ''
                @ (case e of ErrorObject m \<Rightarrow> m | OtherValue \<Rightarrow> str ''Unknown error'')))
   \<and> (extractByType ex (getFileType (getFileExtension lc (fileName file))) file \<noteq> Pending \<longrightarrow>
        (\<exists>pf. processFile lc ex file = Fulfilled pf))"
  by (simp add: processFile_def errorBanner_def split: outcome.splits prod.splits)

theorem processFile_never_rejects_witness:
  "extractByType unreadable (getFileType (getFileExtension toLowerCaseBasic (str ''notes.TXT'')))
      \<lparr>fileName = str ''notes.TXT'', fileSize = 12, mimeType = str ''text/plain'', lastModified = 0\<rparr>
     = Rejected (ErrorObject (str ''Failed to read text file''))
   \<and> (\<exists>pf. processFile toLowerCaseBasic unreadable
              \<lparr>fileName = str ''notes.TXT'', fileSize = 12, mimeType = str ''text/plain'', lastModified = 0\<rparr>
            = Fulfilled pf
          \<and> pfContent pf = str ''Error processing file: Failed to read text file'')"
proof -
  have t: "getFileType (getFileExtension toLowerCaseBasic (str ''notes.TXT'')) = TextFile"
    by (simp add: classify_simps)
  have r: "extractByType unreadable (getFileType (getFileExtension toLowerCaseBasic (str ''notes.TXT'')))
      \<lparr>fileName = str ''notes.TXT'', fileSize = 12, mimeType = str ''text/plain'', lastModified = 0\<rparr>
     = Rejected (ErrorObject (str ''Failed to read text file''))"
    by (simp add: t extractByType_def unreadable_def)
  from r processFile_never_rejects [of toLowerCaseBasic unreadable
      "\<lparr>fileName = str ''notes.TXT'', fileSize = 12, mimeType = str ''text/plain'', lastModified = 0\<rparr>"
      "ErrorObject (str ''Failed to read text file'')"]
  show ?thesis by (simp add: str_def)
qed

text \<open>
  With the extractors of the source: a text file the browser cannot read gives the banner,
  since \<open>processTextFile\<close> rejects. An image the browser cannot decode, or a CSV file it
  cannot read, leaves \<open>processFile\<close> unsettled.
\<close>

lemma text_read_failure_banner:
  "getFileType (getFileExtension lc (fileName file)) = TextFile \<Longrightarrow> readAsText br file = None
   \<Longrightarrow> \<exists>pf. processFile lc (sourceExtractors lc br) file = Fulfilled pf
          \<and> pfContent pf = str ''Error processing file: Failed to read text file''"
  by (simp add: processFile_def extractByType_def sourceExtractors_def processTextFile_def
      errorBanner_def str_def)

lemma image_decode_failure_pending:
  "getFileType (getFileExtension lc (fileName file)) = ImageFile \<Longrightarrow> loadImage br file = None
   \<Longrightarrow> processFile lc (sourceExtractors lc br) file = Pending"
  by (simp add: processFile_def extractByType_def sourceExtractors_def processImageFile_def
      generateImageThumbnail_def split: option.splits)

lemma csv_read_failure_pending:
  "getFileExtension lc (fileName file) = str ''.csv'' \<Longrightarrow> readAsText br file = None
   \<Longrightarrow> processFile lc (sourceExtractors lc br) file = Pending"
proof -
  assume e: "getFileExtension lc (fileName file) = str ''.csv''" and r: "readAsText br file = None"
  have "getFileType (str ''.csv'') = SpreadsheetFile"
    by (simp add: getFileType_def SUPPORTED_TYPES_def str_def)
  with e r show ?thesis
    by (simp add: processFile_def extractByType_def sourceExtractors_def processSpreadsheetFile_def
        processCSVFile_def)
qed

text \<open>
  C3. \<open>processFile\<close> never rejects, but not every failure of an extractor becomes a
  banner. Unlike \<open>processTextFile\<close>, \<open>analyzeImage\<close> and \<open>detectTextInImage\<close>, which handle
  the error event of their reader or image, \<open>generateImageThumbnail\<close> sets neither
  \<open>reader.onerror\<close> nor \<open>img.onerror\<close>. For \<open>photo.png\<close>, which the browser cannot decode,
  the thumbnail promise is never settled and \<open>processFile\<close> returns no file at all.
\<close>

theorem unreadable_image_never_settles:
  "getFileType (getFileExtension toLowerCaseBasic (fileName corruptPhoto)) = ImageFile
   \<and> loadImage undecodable corruptPhoto = None
   \<and> generateImageThumbnail undecodable corruptPhoto = Pending
   \<and> processFile toLowerCaseBasic (sourceExtractors toLowerCaseBasic undecodable) corruptPhoto = Pending"
proof -
  have t: "getFileType (getFileExtension toLowerCaseBasic (fileName corruptPhoto)) = ImageFile"
    by (simp add: corruptPhoto_def classify_simps)
  have l: "loadImage undecodable corruptPhoto = None"
    by (simp add: undecodable_def)
  have g: "generateImageThumbnail undecodable corruptPhoto = Pending"
    by (simp add: generateImageThumbnail_def undecodable_def)
  from t l g image_decode_failure_pending [OF t l] show ?thesis by simp
qed

section \<open>Properties of the duration estimates\<close>

text \<open>
  C5, as the code has it. For an audio file \<open>processFile\<close> records the duration
  \<open>size div 16000\<close> and for a video file \<open>size div 100000\<close>, whatever the MIME type, with no
  lower or upper bound. The bit rate chosen by the MIME type (32000 for webm, 128000 for mp3,
  1411000 for wav) and the bounds 1 and 7200 belong to \<open>estimateAudioDuration\<close> of the speech
  service.
\<close>

theorem pipeline_duration:
  "(getFileType (getFileExtension lc (fileName file)) = AudioFile \<longrightarrow>
      durationOf (processFile lc ex file) = Some (fileSize file div 16000))
   \<and> (getFileType (getFileExtension lc (fileName file)) = VideoFile \<longrightarrow>
      durationOf (processFile lc ex file) = Some (fileSize file div 100000))
   \<and> 1 \<le> estimateAudioDuration format blobSize \<and> estimateAudioDuration format blobSize \<le> 7200
   \<and> (includesStr format (str ''webm'') \<longrightarrow>
        estimateAudioDuration format blobSize = max 1 (min (of_nat (blobSize * 8) / 32000) 7200))
   \<and> (\<not> includesStr format (str ''webm'') \<and> includesStr format (str ''mp3'') \<longrightarrow>
        estimateAudioDuration format blobSize = max 1 (min (of_nat (blobSize * 8) / 128000) 7200))
   \<and> (\<not> includesStr format (str ''webm'') \<and> \<not> includesStr format (str ''mp3'')
        \<and> includesStr format (str ''wav'') \<longrightarrow>
        estimateAudioDuration format blobSize = max 1 (min (of_nat (blobSize * 8) / 1411000) 7200))"
  by (simp add: durationOf_def processFile_def extractByType_def processAudioFile_def
      processVideoFile_def estimateAudioDuration_def avgBitrate_def)

theorem pipeline_duration_witness:
  "getFileType (getFileExtension toLowerCaseBasic (str ''take.wav'')) = AudioFile
   \<and> durationOf (processFile toLowerCaseBasic unreadable
       \<lparr>fileName = str ''take.wav'', fileSize = 1764000, mimeType = str ''audio/wav'', lastModified = 0\<rparr>)
     = Some 110
   \<and> getFileType (getFileExtension toLowerCaseBasic (str ''clip.MP4'')) = VideoFile
   \<and> durationOf (processFile toLowerCaseBasic unreadable
       \<lparr>fileName = str ''clip.MP4'', fileSize = 250000, mimeType = str ''video/mp4'', lastModified = 0\<rparr>)
     = Some 2
   \<and> includesStr (str ''audio/webm;codecs=opus'') (str ''webm'')
   \<and> estimateAudioDuration (str ''audio/webm;codecs=opus'') 40000 = 10
   \<and> \<not> includesStr (str ''audio/mp3'') (str ''webm'') \<and> includesStr (str ''audio/mp3'') (str ''mp3'')
   \<and> estimateAudioDuration (str ''audio/mp3'') 160000 = 10
   \<and> \<not> includesStr (str ''audio/wav'') (str ''webm'') \<and> \<not> includesStr (str ''audio/wav'') (str ''mp3'')
   \<and> includesStr (str ''audio/wav'') (str ''wav'')
   \<and> estimateAudioDuration (str ''audio/wav'') 1764000 = 14112 / 1411"
proof -
  have a: "getFileType (getFileExtension toLowerCaseBasic (str ''take.wav'')) = AudioFile"
    by (simp add: classify_simps)
  have v: "getFileType (getFileExtension toLowerCaseBasic (str ''clip.MP4'')) = VideoFile"
    by (simp add: classify_simps)
  have i: "includesStr (str ''audio/webm;codecs=opus'') (str ''webm'')"
    "\<not> includesStr (str ''audio/mp3'') (str ''webm'')" "includesStr (str ''audio/mp3'') (str ''mp3'')"
    "\<not> includesStr (str ''audio/wav'') (str ''webm'')" "\<not> includesStr (str ''audio/wav'') (str ''mp3'')"
    "includesStr (str ''audio/wav'') (str ''wav'')"
    by (simp_all add: str_def)
  from a v i
    pipeline_duration [of toLowerCaseBasic
      "\<lparr>fileName = str ''take.wav'', fileSize = 1764000, mimeType = str ''audio/wav'', lastModified = 0\<rparr>"
      unreadable "str ''audio/webm;codecs=opus''" 40000]
    pipeline_duration [of toLowerCaseBasic
      "\<lparr>fileName = str ''clip.MP4'', fileSize = 250000, mimeType = str ''video/mp4'', lastModified = 0\<rparr>"
      unreadable "str ''audio/mp3''" 160000]
    pipeline_duration [of toLowerCaseBasic
      "\<lparr>fileName = str ''clip.MP4'', fileSize = 250000, mimeType = str ''video/mp4'', lastModified = 0\<rparr>"
      unreadable "str ''audio/wav''" 1764000]
  show ?thesis by simp
qed

text \<open>
  The pipeline does not follow the bit rates: a wav file of 1764000 bytes is given 110
  seconds, where the bit rate of wav gives about 10; and an empty file is given 0 seconds,
  below the bound 1.
\<close>

theorem pipeline_duration_counterexample:
  "durationOf (processFile toLowerCaseBasic unreadable
       \<lparr>fileName = str ''take.wav'', fileSize = 1764000, mimeType = str ''audio/wav'', lastModified = 0\<rparr>)
     = Some 110
   \<and> estimateAudioDuration (str ''audio/wav'') 1764000 = 14112 / 1411
   \<and> durationOf (processFile toLowerCaseBasic unreadable
       \<lparr>fileName = str ''empty.mp3'', fileSize = 0, mimeType = str ''audio/mpeg'', lastModified = 0\<rparr>)
     = Some 0"
proof -
  have t: "getFileType (getFileExtension toLowerCaseBasic (str ''take.wav'')) = AudioFile"
    by (simp add: classify_simps)
  have u: "getFileType (getFileExtension toLowerCaseBasic (str ''empty.mp3'')) = AudioFile"
    by (simp add: classify_simps)
  have e: "estimateAudioDuration (str ''audio/wav'') 1764000 = 14112 / 1411"
    by (simp add: estimateAudioDuration_def avgBitrate_def str_def)
  show ?thesis
    by (simp add: e durationOf_def processFile_def t u extractByType_def processAudioFile_def)
qed

section \<open>Scenario A\<close>

lemma twoHeadings_matches:
  "matchAll headerLine twoHeadings = [str ''# Intro'', str ''# Details'']"
  by (simp add: twoHeadings_def headerLine_def regex_simps)

lemma twoHeadings_sections:
  "split headerMarker twoHeadings = [[], str ''Intro\<newline>Hello\<newline>\<newline>'', str ''Details\<newline>World'']"
  by (simp add: twoHeadings_def headerMarker_def regex_simps)

lemma twoHeadings_units:
  "extractNotesFromContent rf twoHeadings fn
     = Inr [(str ''Intro'', str ''Intro\<newline>Hello''), (str ''Details'', str ''Details\<newline>World'')]"
  unfolding extractNotesFromContent_def twoHeadings_matches twoHeadings_sections
  by (simp add: headerMarkerAtStart_def regex_simps)

section \<open>Properties of the synthesized notes\<close>

lemma tags_mapNotes:
  "n \<in> set (mapNotes lc clock pf cat len units i) \<Longrightarrow> tags n = noteTags lc pf"
  by (induction units arbitrary: i) (auto simp: makeNote_def)

lemma sourceFile_mapNotes:
  "n \<in> set (mapNotes lc clock pf cat len units i) \<Longrightarrow> sourceFile n = pfName pf"
  by (induction units arbitrary: i) (auto simp: makeNote_def)

lemma length_mapNotes: "length (mapNotes lc clock pf cat len units i) = length units"
  by (induction units arbitrary: i) auto

lemma showNat_nonempty: "showNat n \<noteq> []"
  by (subst showNat.simps) simp

lemma showNat_digits: "c \<in> set (showNat n) \<Longrightarrow> 48 \<le> c \<and> c < 58"
proof (induction n rule: showNat.induct)
  case (1 n)
  show ?case
  proof (cases "n < 10")
    case True
    with "1.prems" show ?thesis by (subst (asm) showNat.simps) simp
  next
    case False
    from "1.prems" have "c \<in> set (showNat (n div 10)) \<or> c = 48 + n mod 10"
      using False by (subst (asm) showNat.simps) auto
    with "1.IH" [OF False] show ?thesis by auto
  qed
qed

lemma showNat_inj: "showNat m = showNat n \<Longrightarrow> m = n"
proof (induction m arbitrary: n rule: showNat.induct)
  case (1 m)
  have sm: "showNat m = (if m < 10 then [48 + m] else showNat (m div 10) @ [48 + m mod 10])"
    by (rule showNat.simps)
  have sn: "showNat n = (if n < 10 then [48 + n] else showNat (n div 10) @ [48 + n mod 10])"
    by (rule showNat.simps)
  show ?case
  proof (cases "m < 10")
    case True
    show ?thesis
    proof (cases "n < 10")
      case True
      with \<open>m < 10\<close> "1.prems" sm sn show ?thesis by simp
    next
      case False
      with True "1.prems" sm sn have "[48 + m] = showNat (n div 10) @ [48 + n mod 10]" by simp
      then have "showNat (n div 10) = []" by (simp add: Cons_eq_append_conv)
      with showNat_nonempty show ?thesis by blast
    qed
  next
    case False
    show ?thesis
    proof (cases "n < 10")
      case True
      with False "1.prems" sm sn have "showNat (m div 10) @ [48 + m mod 10] = [48 + n]" by simp
      then have "showNat (m div 10) = []" by (simp add: append_eq_Cons_conv)
      with showNat_nonempty show ?thesis by blast
    next
      case nF: False
      with False "1.prems" sm sn
      have eq: "showNat (m div 10) = showNat (n div 10)" and md: "m mod 10 = n mod 10" by simp_all
      from "1.IH" [OF False eq] have "m div 10 = n div 10" .
      with md show ?thesis by (metis div_mult_mod_eq)
    qed
  qed
qed

lemma showNat_no_underscore: "95 \<notin> set (showNat n)"
  using showNat_digits [of 95 n] by auto

lemma showInt_no_underscore: "95 \<notin> set (showInt i)"
  using showNat_no_underscore by (auto simp: showInt_def)

lemma split_at_underscore:
  "(95::nat) \<notin> set a \<Longrightarrow> 95 \<notin> set a' \<Longrightarrow> a @ 95 # b = a' @ 95 # b' \<Longrightarrow> a = a' \<and> b = b'"
proof (induction a arbitrary: a')
  case Nil
  then show ?case by (cases a') auto
next
  case (Cons x a)
  then show ?case by (cases a') auto
qed

lemma idAt_inj: "idAt clock i = idAt clock j \<Longrightarrow> i = j"
proof -
  assume "idAt clock i = idAt clock j"
  then have "showInt (dateNow clock i) @ 95 # (showNat i @ 95 # randomSuffix clock i)
           = showInt (dateNow clock j) @ 95 # (showNat j @ 95 # randomSuffix clock j)"
    by (simp add: idAt_def str_def)
  from split_at_underscore [OF showInt_no_underscore showInt_no_underscore this]
  have "showNat i @ 95 # randomSuffix clock i = showNat j @ 95 # randomSuffix clock j" by simp
  from split_at_underscore [OF showNat_no_underscore showNat_no_underscore this]
  show "i = j" by (simp add: showNat_inj)
qed

lemma noteId_mapNotes:
  "n \<in> set (mapNotes lc clock pf cat len units i) \<Longrightarrow> \<exists>k\<ge>i. noteId n = idAt clock k"
proof (induction units arbitrary: i)
  case Nil
  then show ?case by simp
next
  case (Cons u units)
  from Cons.prems consider "n = makeNote lc clock pf cat len u i"
    | "n \<in> set (mapNotes lc clock pf cat len units (i + 1))" by auto
  then show ?case
  proof cases
    case 1
    then have "noteId n = idAt clock i" by (simp add: makeNote_def)
    then show ?thesis by blast
  next
    case 2
    from Cons.IH [OF 2] obtain k where "i + 1 \<le> k" "noteId n = idAt clock k" by blast
    then show ?thesis by (intro exI [of _ k]) simp
  qed
qed

lemma distinct_ids_mapNotes: "distinct (map noteId (mapNotes lc clock pf cat len units i))"
proof (induction units arbitrary: i)
  case Nil
  then show ?case by simp
next
  case (Cons u units)
  have "noteId (makeNote lc clock pf cat len u i) \<notin> noteId ` set (mapNotes lc clock pf cat len units (i + 1))"
  proof
    assume "noteId (makeNote lc clock pf cat len u i) \<in> noteId ` set (mapNotes lc clock pf cat len units (i + 1))"
    then obtain n where n: "n \<in> set (mapNotes lc clock pf cat len units (i + 1))"
      and e: "noteId n = noteId (makeNote lc clock pf cat len u i)" by auto
    from noteId_mapNotes [OF n] obtain k where k: "i + 1 \<le> k" "noteId n = idAt clock k" by blast
    have "noteId (makeNote lc clock pf cat len u i) = idAt clock i" by (simp add: makeNote_def)
    with e k have "idAt clock k = idAt clock i" by simp
    from idAt_inj [OF this] k show False by simp
  qed
  with Cons.IH [of "i + 1"] show ?case by simp
qed

text \<open>
  C4. When segmentation of a processed file yields \<open>n\<close> units,
  \<open>createNotesFromProcessedFile\<close> returns \<open>n\<close> notes, their ids are pairwise distinct
  (the index is a field of the id, between underscores that neither the clock value nor the
  index can contain), and each note's \<open>sourceFile\<close> is the file's name.
\<close>

theorem notes_count_ids_source:
  "extractNotesFromContent rowFields (pfContent pf) (pfName pf) = Inr units \<Longrightarrow>
   \<exists>notes. createNotesFromProcessedFile lc rowFields clock pf cat = Inr notes
     \<and> length notes = length units
     \<and> distinct (map noteId notes)
     \<and> (\<forall>n \<in> set notes. sourceFile n = pfName pf)"
  by (auto simp: createNotesFromProcessedFile_def length_mapNotes distinct_ids_mapNotes
      dest: sourceFile_mapNotes)

theorem notes_count_ids_source_witness:
  "extractNotesFromContent unparsedRows (pfContent exampleUpload) (pfName exampleUpload)
     = Inr [(str ''Intro'', str ''Intro\<newline>Hello''), (str ''Details'', str ''Details\<newline>World'')]
   \<and> (\<exists>notes. createNotesFromProcessedFile toLowerCaseBasic unparsedRows exampleClock exampleUpload (str ''Uploads'')
          = Inr notes
        \<and> length notes = 2
        \<and> map noteId notes = [str ''file_1700000000000_0_k3j9x2a1b'', str ''file_1700000000000_1_k3j9x2a1b'']
        \<and> distinct (map noteId notes)
        \<and> map sourceFile notes = [str ''My Notes.md'', str ''My Notes.md''])"
proof -
  have u: "extractNotesFromContent unparsedRows (pfContent exampleUpload) (pfName exampleUpload)
     = Inr [(str ''Intro'', str ''Intro\<newline>Hello''), (str ''Details'', str ''Details\<newline>World'')]"
    by (simp add: exampleUpload_def twoHeadings_units)
  from notes_count_ids_source [OF u, of toLowerCaseBasic exampleClock "str ''Uploads''"]
  obtain ns where n: "createNotesFromProcessedFile toLowerCaseBasic unparsedRows exampleClock exampleUpload (str ''Uploads'')
          = Inr ns" "length ns = length [(str ''Intro'', str ''Intro\<newline>Hello''), (str ''Details'', str ''Details\<newline>World'')]"
     "distinct (map noteId ns)" by blast
  have ids: "map noteId ns = [str ''file_1700000000000_0_k3j9x2a1b'', str ''file_1700000000000_1_k3j9x2a1b'']"
    using n(1) unfolding createNotesFromProcessedFile_def u
    by (auto simp: makeNote_def idAt_def exampleClock_def showInt_def showNat.simps str_def)
  have src: "map sourceFile ns = [str ''My Notes.md'', str ''My Notes.md'']"
    using n(1) unfolding createNotesFromProcessedFile_def u
    by (auto simp: makeNote_def exampleUpload_def)
  from u n ids src show ?thesis by auto
qed

text \<open>
  C9. All notes made from one processed file carry the same tags: the file's type,
  \<open>uploaded\<close>, \<open>extracted\<close>, the slug of the base file name, and the smart tags computed
  from the whole file's content and size, not from the unit's own content.
\<close>

theorem notes_share_tags:
  "extractNotesFromContent rowFields (pfContent pf) (pfName pf) = Inr units \<Longrightarrow>
   \<exists>notes. createNotesFromProcessedFile lc rowFields clock pf cat = Inr notes
     \<and> length notes = length units
     \<and> (\<forall>n \<in> set notes. tags n =
          [typeName (pfType pf), str ''uploaded'', str ''extracted'',
           replaceAll [Plus Space] (str ''-'') (lc (replaceFirst extensionSuffix [] (pfName pf)))]
          @ generateSmartTags lc pf)"
  by (auto simp: createNotesFromProcessedFile_def length_mapNotes noteTags_def baseFileName_def
      dest: tags_mapNotes)


lemma minutes_units:
  "extractNotesFromContent rf minutes fn
     = Inr [(str ''Groceries'', str ''Groceries\<newline>Milk and eggs''),
            (str ''Friday'', str ''Friday\<newline>Meeting at ten'')]"
proof -
  have m: "matchAll headerLine minutes = [str ''# Groceries'', str ''# Friday'']"
    by (simp add: minutes_def headerLine_def regex_simps)
  have s: "split headerMarker minutes
             = [[], str ''Groceries\<newline>Milk and eggs\<newline>\<newline>'', str ''Friday\<newline>Meeting at ten'']"
    by (simp add: minutes_def headerMarker_def regex_simps)
  show ?thesis
    unfolding extractNotesFromContent_def m s
    by (simp add: headerMarkerAtStart_def regex_simps)
qed

lemma minutes_tags:
  "[typeName (pfType minutesUpload), str ''uploaded'', str ''extracted'',
    replaceAll [Plus Space] (str ''-'') (toLowerCaseBasic (replaceFirst extensionSuffix [] (pfName minutesUpload)))]
   @ generateSmartTags toLowerCaseBasic minutesUpload
   = map str [''text'', ''uploaded'', ''extracted'', ''to-do'', ''small-file'', ''meeting'']"
  by (simp add: minutesUpload_def minutes_def generateSmartTags_def extensionSuffix_def
      toLowerCaseBasic_def lowerUnit_def regex_simps)

theorem notes_share_tags_witness:
  "extractNotesFromContent unparsedRows (pfContent minutesUpload) (pfName minutesUpload)
     = Inr [(str ''Groceries'', str ''Groceries\<newline>Milk and eggs''),
            (str ''Friday'', str ''Friday\<newline>Meeting at ten'')]
   \<and> (\<exists>ns. createNotesFromProcessedFile toLowerCaseBasic unparsedRows exampleClock minutesUpload (str ''Uploads'')
          = Inr ns
        \<and> length ns = 2
        \<and> map tags ns = replicate 2 (map str [''text'', ''uploaded'', ''extracted'', ''to-do'', ''small-file'', ''meeting'']))"
proof -
  have u: "extractNotesFromContent unparsedRows (pfContent minutesUpload) (pfName minutesUpload)
     = Inr [(str ''Groceries'', str ''Groceries\<newline>Milk and eggs''),
            (str ''Friday'', str ''Friday\<newline>Meeting at ten'')]"
    by (simp add: minutesUpload_def minutes_units)
  from notes_share_tags [OF u, of toLowerCaseBasic exampleClock "str ''Uploads''"]
  obtain ns where n: "createNotesFromProcessedFile toLowerCaseBasic unparsedRows exampleClock minutesUpload (str ''Uploads'')
          = Inr ns" "length ns = 2"
     "\<forall>n \<in> set ns. tags n = map str [''text'', ''uploaded'', ''extracted'', ''to-do'', ''small-file'', ''meeting'']"
    unfolding minutes_tags by auto
  from n(2,3) have "map tags ns = replicate 2 (map str [''text'', ''uploaded'', ''extracted'', ''to-do'', ''small-file'', ''meeting''])"
    by (intro replicate_eqI) auto
  with u n show ?thesis by blast
qed

section \<open>Properties of segmentation\<close>

lemma plainText_facts:
  "matchAll headerLine plainText = []"
  "split numberedMarker plainText = [plainText]"
  "paragraphsOf plainText = []"
  "split bulletMarker plainText = [plainText]"
  "\<not> includesStr plainText (str ''Row 1:'')"
  "\<not> includesStr plainText (str ''Columns:'')"
  "length plainText = 17"
  by (simp_all add: plainText_def headerLine_def numberedMarker_def paragraphsOf_def paragraphBreak_def
      bulletMarker_def regex_simps)

subsection \<open>What \<open>/\.[^/.]+$/\<close> removes\<close>

lemma countRun_unbounded: "countRun c None s = length (takeWhile (inClass c) s)"
  by (induction s) auto

lemma countRun_zero: "countRun c (Some 0) s = 0"
  by (cases s) auto

lemma matchAt_Rep:
  "matchAt (Rep c lo hi # its) p s =
     firstDown (\<lambda>k. map_option (\<lambda>r. k + r) (matchAt its (prevAfter p k s) (drop k s)))
       lo (countRun c hi s)"
  by simp

lemma firstDown_none: "(\<And>k. k \<le> n \<Longrightarrow> f k = None) \<Longrightarrow> firstDown f lo n = None"
  by (induction n) auto

lemma firstDown_top: "lo \<le> n \<Longrightarrow> f n = Some r \<Longrightarrow> firstDown f lo n = Some r"
  by (cases n) auto

lemma match_extension_tail:
  "matchAt [Plus (NoneOf [47, 46]), EndInput] p t =
     (if t \<noteq> [] \<and> (\<forall>c \<in> set t. c \<noteq> 47 \<and> c \<noteq> 46) then Some (length t) else None)"
proof -
  let ?f = "\<lambda>k. map_option (\<lambda>r. k + r) (matchAt [EndInput] (prevAfter p k t) (drop k t))"
  let ?n = "countRun (NoneOf [47, 46]) None t"
  have m: "matchAt [Plus (NoneOf [47, 46]), EndInput] p t = firstDown ?f 1 ?n"
    by (simp add: Plus_def)
  have f: "\<And>k. ?f k = (if length t \<le> k then Some k else None)"
    by simp
  have cls: "inClass (NoneOf [47, 46]) = (\<lambda>c. c \<noteq> 47 \<and> c \<noteq> 46)"
    by (auto simp: fun_eq_iff)
  have n: "?n = length (takeWhile (\<lambda>c. c \<noteq> 47 \<and> c \<noteq> 46) t)"
    by (simp only: countRun_unbounded cls)
  show ?thesis
  proof (cases "t \<noteq> [] \<and> (\<forall>c \<in> set t. c \<noteq> 47 \<and> c \<noteq> 46)")
    case True
    then have "takeWhile (\<lambda>c. c \<noteq> 47 \<and> c \<noteq> 46) t = t" by (intro takeWhile_eq_all_conv [THEN iffD2]) auto
    with n have nt: "?n = length t" by simp
    from True have "1 \<le> length t" by (cases t) auto
    with nt have "firstDown ?f 1 ?n = Some (length t)"
      by (intro firstDown_top) (simp_all only: f, simp_all)
    with m True show ?thesis by simp
  next
    case False
    have "firstDown ?f 1 ?n = None"
    proof (cases "t = []")
      case True
      then show ?thesis by simp
    next
      case ne: False
      with False have "takeWhile (\<lambda>c. c \<noteq> 47 \<and> c \<noteq> 46) t \<noteq> t"
        by (simp add: takeWhile_eq_all_conv)
      then have "length (takeWhile (\<lambda>c. c \<noteq> 47 \<and> c \<noteq> 46) t) < length t"
        by (metis length_takeWhile_le le_neq_implies_less takeWhile_eq_take take_all_iff order_refl)
      with n have lt: "?n < length t" by simp
      show ?thesis
      proof (rule firstDown_none)
        fix k assume "k \<le> ?n"
        with lt have "\<not> length t \<le> k" by simp
        then show "?f k = None" by (simp only: f) simp
      qed
    qed
    with m False show ?thesis by simp
  qed
qed

lemma match_extension:
  "matchAt extensionSuffix p s =
     (case s of [] \<Rightarrow> None
      | c # t \<Rightarrow> if c = 46 \<and> t \<noteq> [] \<and> (\<forall>x \<in> set t. x \<noteq> 47 \<and> x \<noteq> 46) then Some (length s) else None)"
proof (cases s)
  case Nil
  then show ?thesis by (simp add: extensionSuffix_def Chr_def Plus_def)
next
  case (Cons c t)
  show ?thesis
  proof (cases "c = 46")
    case True
    have "matchAt extensionSuffix p (46 # t)
            = map_option Suc (matchAt [Plus (NoneOf [47, 46]), EndInput] (Some 46) t)"
      unfolding extensionSuffix_def Chr_def
      by (subst matchAt_Rep)
         (simp add: countRun_zero prevAfter_def del: matchAt.simps split: option.splits)
    with Cons True show ?thesis by (simp only: match_extension_tail) simp
  next
    case False
    with Cons show ?thesis by (simp add: extensionSuffix_def Chr_def Plus_def)
  qed
qed

lemma extension_stripped:
  "ext \<noteq> [] \<Longrightarrow> \<forall>c \<in> set ext. c \<noteq> 47 \<and> c \<noteq> 46 \<Longrightarrow>
   replaceFirst extensionSuffix [] (base @ 46 # ext) = base"
proof -
  assume e: "ext \<noteq> []" "\<forall>c \<in> set ext. c \<noteq> 47 \<and> c \<noteq> 46"
  have "replaceScan extensionSuffix [] p (base @ 46 # ext) = base" for p
  proof (induction base arbitrary: p)
    case Nil
    from e show ?case by (simp add: match_extension)
  next
    case (Cons b base)
    have "matchAt extensionSuffix p (b # base @ 46 # ext) = None"
      by (simp add: match_extension)
    then show ?case by (simp add: Cons.IH)
  qed
  then show ?thesis by (simp add: replaceFirst_def)
qed

lemma no_extension_kept: "46 \<notin> set name \<Longrightarrow> replaceFirst extensionSuffix [] name = name"
proof -
  assume n: "46 \<notin> set name"
  have "46 \<notin> set s \<Longrightarrow> replaceScan extensionSuffix [] p s = s" for p s
    by (induction s arbitrary: p) (auto simp: match_extension)
  with n show ?thesis by (simp add: replaceFirst_def)
qed

subsection \<open>The markdown-header strategy\<close>

lemma headerLoop_units:
  "headerLoop hm secs i = Inr units \<Longrightarrow> (t, c) \<in> set units \<Longrightarrow>
   \<exists>j<length secs. c = trim (secs ! j) \<and> 10 < length c \<and> i + j - 1 < length hm
      \<and> t = trim (replaceFirst headerMarkerAtStart [] (hm ! (i + j - 1)))"
proof (induction secs arbitrary: i units)
  case Nil
  then show ?case by simp
next
  case (Cons sec secs)
  from Cons.prems(1) have lt: "i - 1 < length hm"
    by (auto split: if_splits)
  from Cons.prems(1) lt obtain rest where rest: "headerLoop hm secs (i + 1) = Inr rest"
    and units: "units = (if 10 < length (trim sec)
                  then (trim (replaceFirst headerMarkerAtStart [] (hm ! (i - 1))), trim sec) # rest
                  else rest)"
    by (auto split: sum.splits)
  from Cons.prems(2) units
  consider "10 < length (trim sec)" "(t, c) = (trim (replaceFirst headerMarkerAtStart [] (hm ! (i - 1))), trim sec)"
    | "(t, c) \<in> set rest" by (auto split: if_splits)
  then show ?case
  proof cases
    case 1
    with lt show ?thesis by (intro exI [of _ 0]) simp
  next
    case 2
    from Cons.IH [OF rest 2] obtain j where j: "j < length secs" "c = trim (secs ! j)" "10 < length c"
      "i + 1 + j - 1 < length hm" "t = trim (replaceFirst headerMarkerAtStart [] (hm ! (i + 1 + j - 1)))"
      by blast
    then show ?thesis by (intro exI [of _ "Suc j"]) simp
  qed
qed

text \<open>
  C1, as the code has it. Scenario A gives two units, \<open>Intro\<close> with content
  \<open>Intro\<close>, newline, \<open>Hello\<close>, and \<open>Details\<close> with content \<open>Details\<close>, newline, \<open>World\<close>.
  In general, when the header strategy applies and returns, each unit's content is a piece
  of the text between two heading markers (\<open>#\<close> signs and the white space after them),
  trimmed and longer than 10 code units: it starts after the marker, so it holds the heading's
  text, and ends before the next marker; its title is the matched heading line of the same
  rank, without its marker.
\<close>

theorem header_units:
  "extractNotesFromContent rowFields twoHeadings name
     = Inr [(str ''Intro'', str ''Intro\<newline>Hello''), (str ''Details'', str ''Details\<newline>World'')]
   \<and> (1 < length (matchAll headerLine input)
        \<and> extractNotesFromContent rowFields input name = Inr units \<and> (t, c) \<in> set units \<longrightarrow>
       (\<exists>k. 1 \<le> k \<and> k < length (split headerMarker input)
          \<and> c = trim (split headerMarker input ! k) \<and> 10 < length c
          \<and> k \<le> length (matchAll headerLine input)
          \<and> t = trim (replaceFirst headerMarkerAtStart [] (matchAll headerLine input ! (k - 1)))))"
proof (intro conjI impI)
  show "extractNotesFromContent rowFields twoHeadings name
     = Inr [(str ''Intro'', str ''Intro\<newline>Hello''), (str ''Details'', str ''Details\<newline>World'')]"
    by (rule twoHeadings_units)
next
  assume a: "1 < length (matchAll headerLine input)
        \<and> extractNotesFromContent rowFields input name = Inr units \<and> (t, c) \<in> set units"
  then have gt: "1 < length (matchAll headerLine input)"
    and eq: "extractNotesFromContent rowFields input name = Inr units" by simp_all
  from eq have "headerLoop (matchAll headerLine input) (tl (split headerMarker input)) 1 = Inr units"
    unfolding extractNotesFromContent_def using gt by simp
  from headerLoop_units [OF this] a obtain j where j: "j < length (tl (split headerMarker input))"
    "c = trim (tl (split headerMarker input) ! j)" "10 < length c"
    "1 + j - 1 < length (matchAll headerLine input)"
    "t = trim (replaceFirst headerMarkerAtStart [] (matchAll headerLine input ! (1 + j - 1)))"
    by blast
  from j(1) have ne: "split headerMarker input \<noteq> []" by auto
  from j ne show "\<exists>k. 1 \<le> k \<and> k < length (split headerMarker input)
          \<and> c = trim (split headerMarker input ! k) \<and> 10 < length c
          \<and> k \<le> length (matchAll headerLine input)
          \<and> t = trim (replaceFirst headerMarkerAtStart [] (matchAll headerLine input ! (k - 1)))"
    by (intro exI [of _ "Suc j"]) (simp add: nth_tl)
qed

theorem header_units_witness:
  "1 < length (matchAll headerLine twoHeadings)
   \<and> extractNotesFromContent unparsedRows twoHeadings (str ''notes.md'')
        = Inr [(str ''Intro'', str ''Intro\<newline>Hello''), (str ''Details'', str ''Details\<newline>World'')]
   \<and> (str ''Details'', str ''Details\<newline>World'')
        \<in> set [(str ''Intro'', str ''Intro\<newline>Hello''), (str ''Details'', str ''Details\<newline>World'')]
   \<and> (\<exists>k. 1 \<le> k \<and> k < length (split headerMarker twoHeadings)
          \<and> str ''Details\<newline>World'' = trim (split headerMarker twoHeadings ! k)
          \<and> 10 < length (str ''Details\<newline>World'')
          \<and> k \<le> length (matchAll headerLine twoHeadings)
          \<and> str ''Details'' = trim (replaceFirst headerMarkerAtStart [] (matchAll headerLine twoHeadings ! (k - 1))))"
proof -
  have a: "1 < length (matchAll headerLine twoHeadings)"
    by (simp add: twoHeadings_matches)
  have b: "extractNotesFromContent unparsedRows twoHeadings (str ''notes.md'')
        = Inr [(str ''Intro'', str ''Intro\<newline>Hello''), (str ''Details'', str ''Details\<newline>World'')]"
    by (rule twoHeadings_units)
  have c: "(str ''Details'', str ''Details\<newline>World'')
        \<in> set [(str ''Intro'', str ''Intro\<newline>Hello''), (str ''Details'', str ''Details\<newline>World'')]"
    by simp
  from header_units [of unparsedRows "str ''notes.md''" twoHeadings
      "[(str ''Intro'', str ''Intro\<newline>Hello''), (str ''Details'', str ''Details\<newline>World'')]"
      "str ''Details''" "str ''Details\<newline>World''"] a b c
  show ?thesis by blast
qed

text \<open>The units \<open>(Intro, Hello)\<close> and \<open>(Details, World)\<close> are not the ones returned.\<close>

theorem header_units_counterexample:
  "extractNotesFromContent unparsedRows twoHeadings (str ''notes.md'')
     \<noteq> Inr [(str ''Intro'', str ''Hello''), (str ''Details'', str ''World'')]"
  by (simp add: twoHeadings_units str_def)

subsection \<open>Non-empty results\<close>

lemma headerLoop_returns:
  "i - 1 + length secs \<le> length hm \<Longrightarrow> \<exists>units. headerLoop hm secs i = Inr units"
proof (induction secs arbitrary: i)
  case Nil
  then show ?case by simp
next
  case (Cons sec secs)
  from Cons.prems have lt: "i - 1 < length hm" and "(i + 1) - 1 + length secs \<le> length hm"
    by simp_all
  from Cons.IH [OF this(2)] obtain rest where "headerLoop hm secs (i + 1) = Inr rest" by blast
  with lt show ?case by simp
qed

lemma headerLoop_empty:
  "headerLoop hm secs i = Inr units \<Longrightarrow> (units = [] \<longleftrightarrow> (\<forall>sec \<in> set secs. length (trim sec) \<le> 10))"
proof (induction secs arbitrary: i units)
  case Nil
  then show ?case by simp
next
  case (Cons sec secs)
  from Cons.prems have lt: "i - 1 < length hm"
    by (auto split: if_splits)
  from Cons.prems lt obtain rest where rest: "headerLoop hm secs (i + 1) = Inr rest"
    and units: "units = (if 10 < length (trim sec)
                  then (trim (replaceFirst headerMarkerAtStart [] (hm ! (i - 1))), trim sec) # rest
                  else rest)"
    by (auto split: sum.splits)
  from Cons.IH [OF rest] units show ?case by auto
qed

lemma sectionLoop_empty:
  "sectionLoop label secs i = [] \<longleftrightarrow> (\<forall>sec \<in> set secs. length (trim sec) \<le> 20)"
  by (induction secs arbitrary: i) auto

lemma chunksOf_nonempty: "s \<noteq> [] \<Longrightarrow> chunksOf 800 s \<noteq> []"
  by (subst chunksOf.simps) simp

lemma paragraphLoop_nonempty: "ps \<noteq> [] \<Longrightarrow> paragraphLoop fn ps i \<noteq> []"
  by (cases ps) simp_all

lemma rowLoop_nonempty: "rows \<noteq> [] \<Longrightarrow> rowLoop rf rows i \<noteq> []"
  by (cases rows) simp_all

lemma chunkLoop_nonempty: "cs \<noteq> [] \<Longrightarrow> chunkLoop fn cs i \<noteq> []"
  by (cases cs) simp_all

text \<open>
  C2, as the code has it. Segmentation returns whenever the header strategy is not applied
  or the text has no more heading markers than heading lines. What it returns is empty in
  exactly one case: the strategy applied is the header, the numbered-section or the bullet
  strategy, and every section after the first is too short for it (at most 10 code units
  after trimming for the header strategy, at most 20 for the other two). In every other case
  the sequence of units is non-empty.
\<close>

theorem segmentation_nonempty:
  "((1 < length (matchAll headerLine input) \<longrightarrow>
       length (split headerMarker input) \<le> length (matchAll headerLine input) + 1) \<longrightarrow>
      (\<exists>units. extractNotesFromContent rowFields input name = Inr units))
   \<and> (extractNotesFromContent rowFields input name = Inr units \<longrightarrow>
        (units = [] \<longleftrightarrow>
           (1 < length (matchAll headerLine input)
              \<and> (\<forall>sec \<in> set (tl (split headerMarker input)). length (trim sec) \<le> 10))
         \<or> (\<not> 1 < length (matchAll headerLine input) \<and> 2 < length (split numberedMarker input)
              \<and> (\<forall>sec \<in> set (tl (split numberedMarker input)). length (trim sec) \<le> 20))
         \<or> (\<not> 1 < length (matchAll headerLine input) \<and> \<not> 2 < length (split numberedMarker input)
              \<and> \<not> 1 < length (paragraphsOf input) \<and> 2 < length (split bulletMarker input)
              \<and> (\<forall>sec \<in> set (tl (split bulletMarker input)). length (trim sec) \<le> 20))))"
proof (intro conjI impI)
  assume h: "1 < length (matchAll headerLine input) \<longrightarrow>
       length (split headerMarker input) \<le> length (matchAll headerLine input) + 1"
  show "\<exists>units. extractNotesFromContent rowFields input name = Inr units"
  proof (cases "1 < length (matchAll headerLine input)")
    case True
    with h have "1 - 1 + length (tl (split headerMarker input)) \<le> length (matchAll headerLine input)"
      by simp
    from headerLoop_returns [OF this] True show ?thesis
      by (simp add: extractNotesFromContent_def)
  next
    case False
    then show ?thesis by (simp add: extractNotesFromContent_def)
  qed
next
  assume r: "extractNotesFromContent rowFields input name = Inr units"
  have p: "1 < length (paragraphsOf input) \<Longrightarrow> paragraphLoop name (paragraphsOf input) 0 \<noteq> []"
    by (rule paragraphLoop_nonempty) auto
  have w: "1 < length (matchAll rowLine input) \<Longrightarrow> rowLoop rowFields (matchAll rowLine input) 0 \<noteq> []"
    by (rule rowLoop_nonempty) auto
  have c: "1000 < length input \<Longrightarrow> chunkLoop name (chunksOf 800 input) 0 \<noteq> []"
    by (rule chunkLoop_nonempty, rule chunksOf_nonempty) auto
  show "units = [] \<longleftrightarrow>
           (1 < length (matchAll headerLine input)
              \<and> (\<forall>sec \<in> set (tl (split headerMarker input)). length (trim sec) \<le> 10))
         \<or> (\<not> 1 < length (matchAll headerLine input) \<and> 2 < length (split numberedMarker input)
              \<and> (\<forall>sec \<in> set (tl (split numberedMarker input)). length (trim sec) \<le> 20))
         \<or> (\<not> 1 < length (matchAll headerLine input) \<and> \<not> 2 < length (split numberedMarker input)
              \<and> \<not> 1 < length (paragraphsOf input) \<and> 2 < length (split bulletMarker input)
              \<and> (\<forall>sec \<in> set (tl (split bulletMarker input)). length (trim sec) \<le> 20))"
  proof (cases "1 < length (matchAll headerLine input)")
    case True
    with r have "headerLoop (matchAll headerLine input) (tl (split headerMarker input)) 1 = Inr units"
      by (simp add: extractNotesFromContent_def)
    from headerLoop_empty [OF this] True show ?thesis by simp
  next
    case nh: False
    show ?thesis
    proof (cases "2 < length (split numberedMarker input)")
      case True
      with r nh have "units = sectionLoop (str ''Section '') (tl (split numberedMarker input)) 1"
        by (simp add: extractNotesFromContent_def)
      with sectionLoop_empty [of "str ''Section ''" "tl (split numberedMarker input)" 1] nh True
      show ?thesis by simp
    next
      case nn: False
      show ?thesis
      proof (cases "1 < length (paragraphsOf input)")
        case True
        with r nh nn p show ?thesis by (auto simp: extractNotesFromContent_def)
      next
        case np: False
        show ?thesis
        proof (cases "2 < length (split bulletMarker input)")
          case True
          with r nh nn np have "units = sectionLoop (str ''Item '') (tl (split bulletMarker input)) 1"
            by (simp add: extractNotesFromContent_def)
          with sectionLoop_empty [of "str ''Item ''" "tl (split bulletMarker input)" 1] nh nn np True
          show ?thesis by simp
        next
          case nb: False
          with r nh nn np w c have "units \<noteq> []"
            by (auto simp: extractNotesFromContent_def split: if_splits)
          with nh nn np nb show ?thesis by simp
        qed
      qed
    qed
  qed
qed

theorem segmentation_nonempty_witness:
  "1 < length (matchAll headerLine twoHeadings)
   \<and> length (split headerMarker twoHeadings) \<le> length (matchAll headerLine twoHeadings) + 1
   \<and> extractNotesFromContent unparsedRows twoHeadings (str ''notes.md'')
        = Inr [(str ''Intro'', str ''Intro\<newline>Hello''), (str ''Details'', str ''Details\<newline>World'')]
   \<and> [(str ''Intro'', str ''Intro\<newline>Hello''), (str ''Details'', str ''Details\<newline>World'')] \<noteq> []
   \<and> \<not> (\<forall>sec \<in> set (tl (split headerMarker twoHeadings)). length (trim sec) \<le> 10)
   \<and> \<not> 1 < length (matchAll headerLine plainText)
   \<and> (\<exists>units. extractNotesFromContent unparsedRows plainText (str ''list.txt'') = Inr units
         \<and> units \<noteq> [])"
proof -
  have a: "1 < length (matchAll headerLine twoHeadings)"
    "length (split headerMarker twoHeadings) \<le> length (matchAll headerLine twoHeadings) + 1"
    by (simp_all add: twoHeadings_matches twoHeadings_sections)
  have b: "extractNotesFromContent unparsedRows twoHeadings (str ''notes.md'')
        = Inr [(str ''Intro'', str ''Intro\<newline>Hello''), (str ''Details'', str ''Details\<newline>World'')]"
    by (rule twoHeadings_units)
  from segmentation_nonempty [of twoHeadings unparsedRows "str ''notes.md''"
      "[(str ''Intro'', str ''Intro\<newline>Hello''), (str ''Details'', str ''Details\<newline>World'')]"] a b
  have c: "\<not> (\<forall>sec \<in> set (tl (split headerMarker twoHeadings)). length (trim sec) \<le> 10)"
    by simp
  have d: "\<not> 1 < length (matchAll headerLine plainText)" "\<not> 2 < length (split numberedMarker plainText)"
    "\<not> 1 < length (paragraphsOf plainText)" "\<not> 2 < length (split bulletMarker plainText)"
    by (simp_all add: plainText_facts)
  from d(1) segmentation_nonempty [of plainText unparsedRows "str ''list.txt''"]
  obtain units where u: "extractNotesFromContent unparsedRows plainText (str ''list.txt'') = Inr units"
    by blast
  from segmentation_nonempty [of plainText unparsedRows "str ''list.txt''" units] u d
  have "units \<noteq> []" by simp
  with a b c d(1) u show ?thesis by blast
qed

text \<open>
  Under the header strategy the sections of at most 10 code units are dropped and what is
  left is returned: two headings without a body give no unit at all.
\<close>

theorem segmentation_nonempty_counterexample:
  "extractNotesFromContent unparsedRows (str ''# A\<newline># B'') (str ''a.md'') = Inr []"
proof -
  have m: "matchAll headerLine (str ''# A\<newline># B'') = [str ''# A'', str ''# B'']"
    by (simp add: headerLine_def regex_simps)
  have s: "split headerMarker (str ''# A\<newline># B'') = [[], str ''A\<newline>'', str ''B'']"
    by (simp add: headerMarker_def regex_simps)
  show ?thesis
    unfolding extractNotesFromContent_def m s
    by (simp add: headerMarkerAtStart_def regex_simps)
qed

text \<open>
  A heading marker with nothing after it on its line makes \<open>split\<close> cut more often than
  \<open>match\<close> finds heading lines, and the loop of the header strategy reads past the end of
  \<open>headerMatches\<close>: the function throws.
\<close>

lemma headingsThrow:
  "extractNotesFromContent unparsedRows (str ''#\<newline># A\<newline># B'') (str ''a.md'') = Inl TypeError"
proof -
  have m: "matchAll headerLine (str ''#\<newline># A\<newline># B'') = [str ''#\<newline># A'', str ''# B'']"
    by (simp add: headerLine_def regex_simps)
  have s: "split headerMarker (str ''#\<newline># A\<newline># B'') = [[], [], str ''A\<newline>'', str ''B'']"
    by (simp add: headerMarker_def regex_simps)
  show ?thesis
    unfolding extractNotesFromContent_def m s
    by (simp add: headerMarkerAtStart_def regex_simps)
qed

subsection \<open>The single-unit fallback\<close>

lemma strip_example: "replaceFirst extensionSuffix [] (str ''shopping.list.txt'') = str ''shopping.list''"
  by (simp add: extensionSuffix_def regex_simps)

text \<open>
  C6. A text of at most 1000 code units with fewer than two heading lines, at most two
  numbered pieces, at most one paragraph longer than 50 code units after trimming, at most two
  bullet pieces and neither \<open>Row 1:\<close> nor \<open>Columns:\<close> is returned as one unit: its
  content is the whole text, its title the file name without what \<open>/\.[^/.]+$/\<close> matches
  (its extension, by \<open>extension_stripped\<close> and \<open>no_extension_kept\<close>), or
  \<open>Extracted Content\<close> when nothing is left of the name.
\<close>

theorem single_unit_fallback:
  "length input \<le> 1000 \<Longrightarrow> length (matchAll headerLine input) < 2
   \<Longrightarrow> length (split numberedMarker input) \<le> 2
   \<Longrightarrow> length (paragraphsOf input) \<le> 1
   \<Longrightarrow> length (split bulletMarker input) \<le> 2
   \<Longrightarrow> \<not> includesStr input (str ''Row 1:'') \<Longrightarrow> \<not> includesStr input (str ''Columns:'')
   \<Longrightarrow> extractNotesFromContent rowFields input name =
         Inr [(if replaceFirst extensionSuffix [] name = [] then str ''Extracted Content''
               else replaceFirst extensionSuffix [] name, input)]"
  by (simp add: extractNotesFromContent_def orElse_def)

theorem single_unit_fallback_witness:
  "length plainText \<le> 1000 \<and> length (matchAll headerLine plainText) < 2
   \<and> length (split numberedMarker plainText) \<le> 2
   \<and> length (paragraphsOf plainText) \<le> 1
   \<and> length (split bulletMarker plainText) \<le> 2
   \<and> \<not> includesStr plainText (str ''Row 1:'') \<and> \<not> includesStr plainText (str ''Columns:'')
   \<and> extractNotesFromContent unparsedRows plainText (str ''shopping.list.txt'')
        = Inr [(str ''shopping.list'', str ''Buy milk and eggs'')]"
proof -
  have h: "length plainText \<le> 1000" "length (matchAll headerLine plainText) < 2"
    "length (split numberedMarker plainText) \<le> 2" "length (paragraphsOf plainText) \<le> 1"
    "length (split bulletMarker plainText) \<le> 2"
    by (simp_all add: plainText_facts)
  from single_unit_fallback [OF h plainText_facts(5) plainText_facts(6), of unparsedRows "str ''shopping.list.txt''"]
  have "extractNotesFromContent unparsedRows plainText (str ''shopping.list.txt'')
        = Inr [(str ''shopping.list'', str ''Buy milk and eggs'')]"
    by (simp add: strip_example) (simp add: plainText_def str_def)
  with h plainText_facts(5,6) show ?thesis by simp
qed

section \<open>Properties of classification\<close>

lemma no_dot_extension: "46 \<notin> set filename \<Longrightarrow> getFileExtension lc filename = lc filename"
  by (simp add: getFileExtension_def lastIndexOf_def substringFrom_def)

lemma lookupType_unknown:
  "\<forall>row \<in> set tbl. extension \<notin> set (snd row) \<Longrightarrow> lookupType tbl extension = UnknownFile"
  by (induction tbl) auto

lemma extensions_dotted: "(t, es) \<in> set SUPPORTED_TYPES \<Longrightarrow> e \<in> set es \<Longrightarrow> 46 \<in> set e"
  by (auto simp: SUPPORTED_TYPES_def str_def)

lemma no_dot_unknown: "46 \<notin> set extension \<Longrightarrow> getFileType extension = UnknownFile"
  unfolding getFileType_def by (rule lookupType_unknown) (auto dest: extensions_dotted)

text \<open>
  C10. A name without a dot has its whole lower-cased form as extension and is of unknown
  type (\<open>no_dot_extension\<close>, \<open>no_dot_unknown\<close>). Classification is not independent of case,
  though: \<open>getFileExtension\<close> looks for the last dot in the name as given and cuts the
  lower-cased name at that index. The lower case of U+0130 is two code units long, so for the
  name U+0130 \<open>.TXT\<close> the cut falls one unit early, the extension found is U+0307 \<open>.txt\<close>
  and the type is unknown, while the lower-cased name itself is classified as text.
\<close>

theorem dotted_capital_I_misclassified:
  "toLowerCaseBasic (304 # str ''.TXT'') = toLowerCaseBasic ([105, 775] @ str ''.txt'')
   \<and> getFileExtension toLowerCaseBasic (304 # str ''.TXT'') = 775 # str ''.txt''
   \<and> getFileType (getFileExtension toLowerCaseBasic (304 # str ''.TXT'')) = UnknownFile
   \<and> getFileType (getFileExtension toLowerCaseBasic ([105, 775] @ str ''.txt'')) = TextFile"
  by (simp add: classify_simps)

end
